theory Spec2Isabelle
  imports Complex_Main "HOL-Library.AList"
begin

section \<open>Python values and helpers\<close>

text \<open>
  Strings are byte lists; the helpers below follow Python's \<open>str\<close> methods on ASCII text.
  A Python \<open>dict\<close> is an association list in insertion order: \<open>d[k] = v\<close> is
  \<open>AList.update k v d\<close> (an existing key keeps its place, a new key goes last),
  \<open>d.get(k)\<close> is \<open>map_of d k\<close> and \<open>k in d\<close> is \<open>map_of d k \<noteq> None\<close>.
  An exception is a value \<open>Inl msg\<close> of a sum type, \<open>msg\<close> being \<open>str(e)\<close>.
\<close>

definition py_isspace :: "char \<Rightarrow> bool" where
  \<comment> \<open>space, tab, line feed, vertical tab, form feed, carriage return and the separators 0x1C..0x1F\<close>
  "py_isspace c = (c \<in> set [CHR '' '', CHR 0x09, CHR 0x0A, CHR 0x0B, CHR 0x0C, CHR 0x0D,
                              CHR 0x1C, CHR 0x1D, CHR 0x1E, CHR 0x1F])"

definition py_strip :: "string \<Rightarrow> string" where
  "py_strip s = rev (dropWhile py_isspace (rev (dropWhile py_isspace s)))"

definition lower_char :: "char \<Rightarrow> char" where
  "lower_char c =
     (case map_of (zip ''ABCDEFGHIJKLMNOPQRSTUVWXYZ'' ''abcdefghijklmnopqrstuvwxyz'') c of
        None \<Rightarrow> c
      | Some l \<Rightarrow> l)"

definition py_lower :: "string \<Rightarrow> string" where
  "py_lower s = map lower_char s"

fun py_in :: "string \<Rightarrow> string \<Rightarrow> bool" where
  "py_in sub [] = (sub = [])"
| "py_in sub (c # s) = (take (length sub) (c # s) = sub \<or> py_in sub s)"

definition split_first :: "char \<Rightarrow> string \<Rightarrow> string" where
  \<comment> \<open>\<open>s.split(sep)[0]\<close>\<close>
  "split_first sep s = takeWhile (\<lambda>c. c \<noteq> sep) s"

fun py_replace :: "string \<Rightarrow> string \<Rightarrow> string \<Rightarrow> string" where
  \<comment> \<open>\<open>s.replace(old, new)\<close> for a non-empty \<open>old\<close>: left to right, without overlap\<close>
  "py_replace old new [] = []"
| "py_replace old new (c # s) =
     (if old \<noteq> [] \<and> take (length old) (c # s) = old
      then new @ py_replace old new (drop (length old) (c # s))
      else c # py_replace old new s)"

fun split_from :: "string \<Rightarrow> string \<Rightarrow> string \<Rightarrow> string list" where
  \<comment> \<open>\<open>acc\<close> holds the current piece, reversed\<close>
  "split_from sep acc [] = [rev acc]"
| "split_from sep acc (c # s) =
     (if sep \<noteq> [] \<and> take (length sep) (c # s) = sep
      then rev acc # split_from sep [] (drop (length sep) (c # s))
      else split_from sep (c # acc) s)"

definition py_split :: "string \<Rightarrow> string \<Rightarrow> string list" where
  \<comment> \<open>\<open>s.split(sep)\<close>\<close>
  "py_split sep s = split_from sep [] s"

definition upper_char :: "char \<Rightarrow> char" where
  "upper_char c =
     (case map_of (zip ''abcdefghijklmnopqrstuvwxyz'' ''ABCDEFGHIJKLMNOPQRSTUVWXYZ'') c of
        None \<Rightarrow> c
      | Some u \<Rightarrow> u)"

definition is_alpha :: "char \<Rightarrow> bool" where
  "is_alpha c = (c \<in> set ''abcdefghijklmnopqrstuvwxyzABCDEFGHIJKLMNOPQRSTUVWXYZ'')"

fun title_from :: "bool \<Rightarrow> string \<Rightarrow> string" where
  \<comment> \<open>\<open>str.title\<close>: the flag says whether the previous character was a letter\<close>
  "title_from prev [] = []"
| "title_from prev (c # s) =
     (if is_alpha c then (if prev then lower_char c else upper_char c) # title_from True s
      else c # title_from False s)"

definition py_title :: "string \<Rightarrow> string" where
  "py_title s = title_from False s"

definition py_rstrip_char :: "char \<Rightarrow> string \<Rightarrow> string" where
  \<comment> \<open>\<open>s.rstrip(c)\<close> for a single character\<close>
  "py_rstrip_char c s = rev (dropWhile (\<lambda>x. x = c) (rev s))"

definition py_startswith :: "string \<Rightarrow> string \<Rightarrow> bool" where
  "py_startswith s pre = (take (length pre) s = pre)"

definition is_digit :: "char \<Rightarrow> bool" where
  "is_digit c = (c \<in> set ''0123456789'')"

function dec_nat :: "nat \<Rightarrow> string" where
  \<comment> \<open>the decimal digits of a natural number\<close>
  "dec_nat n = (if n < 10 then [''0123456789'' ! n] else dec_nat (n div 10) @ [''0123456789'' ! (n mod 10)])"
  by pat_completeness auto
termination
  by (relation "measure id") auto

declare dec_nat.simps [simp del]

definition dec_int :: "int \<Rightarrow> string" where
  \<comment> \<open>\<open>str(i)\<close> for an integer\<close>
  "dec_int i = (if i < 0 then CHR ''-'' # dec_nat (nat (- i)) else dec_nat (nat i))"

subsection \<open>JSON values as Python objects\<close>

text \<open>
  What \<open>json.loads\<close> and \<open>raw_decode\<close> return. A number with a fraction or an exponent
  is a \<open>JNum\<close> and arithmetic on it is exact (Python's floats are idealised as rationals;
  NaN and the infinities are left out). A \<open>JObj\<close> lists a dict's items in order.
\<close>

datatype json =
    JNull
  | JBool bool
  | JInt int
  | JNum rat
  | JStr string
  | JArr "json list"
  | JObj "(string \<times> json) list"

definition truthy :: "json \<Rightarrow> bool" where
  "truthy j = (case j of
       JNull \<Rightarrow> False
     | JBool b \<Rightarrow> b
     | JInt i \<Rightarrow> i \<noteq> 0
     | JNum r \<Rightarrow> r \<noteq> 0
     | JStr s \<Rightarrow> s \<noteq> []
     | JArr xs \<Rightarrow> xs \<noteq> []
     | JObj kvs \<Rightarrow> kvs \<noteq> [])"

definition py_or :: "json \<Rightarrow> json \<Rightarrow> json" where
  \<comment> \<open>\<open>a or b\<close>\<close>
  "py_or a b = (if truthy a then a else b)"

definition is_dict :: "json \<Rightarrow> bool" where
  "is_dict j = (case j of JObj kvs \<Rightarrow> True | _ \<Rightarrow> False)"

definition has_key :: "json \<Rightarrow> string \<Rightarrow> bool" where
  \<comment> \<open>\<open>k in d\<close> for a dict \<open>d\<close>\<close>
  "has_key j k = (case j of JObj kvs \<Rightarrow> map_of kvs k \<noteq> None | _ \<Rightarrow> False)"

definition jget_default :: "json \<Rightarrow> string \<Rightarrow> json \<Rightarrow> json" where
  \<comment> \<open>\<open>d.get(k, default)\<close> for a dict \<open>d\<close>\<close>
  "jget_default j k dflt =
     (case j of
        JObj kvs \<Rightarrow> (case map_of kvs k of None \<Rightarrow> dflt | Some v \<Rightarrow> v)
      | _ \<Rightarrow> dflt)"

definition jget :: "json \<Rightarrow> string \<Rightarrow> json" where
  \<comment> \<open>\<open>d.get(k)\<close>\<close>
  "jget j k = jget_default j k JNull"

definition num_of :: "json \<Rightarrow> rat option" where
  \<comment> \<open>the numeric value of an int, a float or a bool\<close>
  "num_of j = (case j of
       JInt i \<Rightarrow> Some (of_int i)
     | JNum r \<Rightarrow> Some r
     | JBool b \<Rightarrow> Some (if b then 1 else 0)
     | _ \<Rightarrow> None)"

definition eq_int :: "json \<Rightarrow> int \<Rightarrow> bool" where
  \<comment> \<open>\<open>x == n\<close> for an integer literal \<open>n\<close>: numbers compare by value, nothing else is equal\<close>
  "eq_int j n = (num_of j = Some (of_int n))"

definition eq_str :: "json \<Rightarrow> string \<Rightarrow> bool" where
  \<comment> \<open>\<open>x == s\<close> for a string \<open>s\<close>\<close>
  "eq_str j s = (j = JStr s)"


text \<open>
  The library functions the scrapers call and this development does not define: parsing
  a number out of a string, printing a float, list or dict, hashing, the regex scan for
  embedded JSON (\<open>finditer\<close> followed by \<open>raw_decode\<close> at each match, \<open>None\<close> where the
  decoder raised), and the keyword regexes over a page's text. Every theorem holds for
  every such library.
\<close>

datatype anchor =
    ZeptoIdAnchor        \<comment> \<open>an object that starts with an "id" key holding 36 characters of hex digits and dashes\<close>
  | BlinkitListAnchor    \<comment> \<open>an object that starts with a "product\_id" key holding digits, quoted or not\<close>
  | BlinkitProductAnchor \<comment> \<open>an object that starts with a "product\_id" key\<close>

record pylib =
  float_of_str :: "string \<Rightarrow> rat option"
  int_of_str :: "string \<Rightarrow> int option"
  repr_of :: "json \<Rightarrow> string"
  hash_of :: "json \<Rightarrow> int"
  json_scan :: "anchor \<Rightarrow> string \<Rightarrow> json option list"
  line_after :: "string \<Rightarrow> string \<Rightarrow> string option"
  section_after :: "string \<Rightarrow> string \<Rightarrow> string option"
  weight_in :: "string \<Rightarrow> string option"

definition py_float :: "pylib \<Rightarrow> json \<Rightarrow> string + rat" where
  \<comment> \<open>\<open>float(x)\<close>\<close>
  "py_float L j = (case j of
       JInt i \<Rightarrow> Inr (of_int i)
     | JNum r \<Rightarrow> Inr r
     | JBool b \<Rightarrow> Inr (if b then 1 else 0)
     | JStr s \<Rightarrow> (case float_of_str L s of None \<Rightarrow> Inl ''ValueError'' | Some r \<Rightarrow> Inr r)
     | _ \<Rightarrow> Inl ''TypeError'')"

definition trunc_rat :: "rat \<Rightarrow> int" where
  \<comment> \<open>rounding towards zero\<close>
  "trunc_rat r = (if r < 0 then - \<lfloor>- r\<rfloor> else \<lfloor>r\<rfloor>)"

definition py_int :: "pylib \<Rightarrow> json \<Rightarrow> string + int" where
  \<comment> \<open>\<open>int(x)\<close>\<close>
  "py_int L j = (case j of
       JInt i \<Rightarrow> Inr i
     | JNum r \<Rightarrow> Inr (trunc_rat r)
     | JBool b \<Rightarrow> Inr (if b then 1 else 0)
     | JStr s \<Rightarrow> (case int_of_str L s of None \<Rightarrow> Inl ''ValueError'' | Some i \<Rightarrow> Inr i)
     | _ \<Rightarrow> Inl ''TypeError'')"

definition py_str :: "pylib \<Rightarrow> json \<Rightarrow> string" where
  \<comment> \<open>\<open>str(x)\<close>\<close>
  "py_str L j = (case j of
       JStr s \<Rightarrow> s
     | JInt i \<Rightarrow> dec_int i
     | JNull \<Rightarrow> ''None''
     | JBool b \<Rightarrow> (if b then ''True'' else ''False'')
     | _ \<Rightarrow> repr_of L j)"

definition py_len :: "json \<Rightarrow> string + nat" where
  \<comment> \<open>\<open>len(x)\<close>\<close>
  "py_len j = (case j of
       JStr s \<Rightarrow> Inr (length s)
     | JArr xs \<Rightarrow> Inr (length xs)
     | JObj kvs \<Rightarrow> Inr (length kvs)
     | _ \<Rightarrow> Inl ''TypeError'')"

definition opt_json :: "string option \<Rightarrow> json" where
  "opt_json t = (case t of None \<Rightarrow> JNull | Some s \<Rightarrow> JStr s)"

section \<open>Input reader (utils/excel\_reader.py)\<close>

text \<open>
  The data frame \<open>pd.read_excel\<close> returns: its column labels and its rows. A cell is
  represented by the text \<open>str()\<close> gives for it (\<open>nan\<close> for an empty cell,
  \<open>560001.0\<close> for a pincode read as a float). \<open>row[c]\<close> is the cell under the label
  \<open>c\<close>; labels are taken to be strings, distinct after normalisation.
\<close>

record dataframe =
  df_columns :: "string list"
  df_rows :: "string list list"

definition row_get :: "string list \<Rightarrow> string list \<Rightarrow> string \<Rightarrow> string + string" where
  "row_get cols row c = (case map_of (zip cols row) c of None \<Rightarrow> Inl ''KeyError'' | Some v \<Rightarrow> Inr v)"

definition norm_pincode :: "string \<Rightarrow> string" where
  \<comment> \<open>\<open>str(row[pincode_col]).split('.')[0]\<close>\<close>
  "norm_pincode cell = split_first CHR ''.'' cell"

definition url_kept :: "string \<Rightarrow> bool" where
  \<comment> \<open>\<open>url and url.lower() != 'nan'\<close>, on the stripped cell\<close>
  "url_kept url = (url \<noteq> [] \<and> py_lower url \<noteq> ''nan'')"

definition group_row :: "string \<Rightarrow> string \<Rightarrow> (string \<times> string list) list \<Rightarrow> (string \<times> string list) list" where
  "group_row pincode url grouped =
     (let g1 = (if map_of grouped pincode = None then AList.update pincode [] grouped else grouped)
      in if url_kept url
         then AList.update pincode ((case map_of g1 pincode of None \<Rightarrow> [] | Some urls \<Rightarrow> urls) @ [url]) g1
         else g1)"

fun group_rows :: "string list \<Rightarrow> string \<Rightarrow> string \<Rightarrow> string list list
    \<Rightarrow> (string \<times> string list) list \<Rightarrow> string + (string \<times> string list) list" where
  "group_rows cols pc uc [] grouped = Inr grouped"
| "group_rows cols pc uc (row # rest) grouped =
     (case row_get cols row pc of
        Inl e \<Rightarrow> Inl e
      | Inr pcell \<Rightarrow>
          (case row_get cols row uc of
             Inl e \<Rightarrow> Inl e
           | Inr ucell \<Rightarrow>
               group_rows cols pc uc rest (group_row (norm_pincode pcell) (py_strip ucell) grouped)))"

definition norm_columns :: "dataframe \<Rightarrow> string list" where
  "norm_columns df = map (\<lambda>c. py_lower (py_strip c)) (df_columns df)"

definition pincode_col :: "dataframe \<Rightarrow> string option" where
  "pincode_col df = List.find (\<lambda>c. py_in ''pincode'' c) (norm_columns df)"

definition url_col :: "dataframe \<Rightarrow> string option" where
  "url_col df = List.find (\<lambda>c. py_in ''url'' c \<or> py_in ''link'' c) (norm_columns df)"

definition read_input_excel :: "string + dataframe \<Rightarrow> (string \<times> string list) list" where
  "read_input_excel loaded =
     (case loaded of
        Inl e \<Rightarrow> []
      | Inr df \<Rightarrow>
          (case (pincode_col df, url_col df) of
             (Some pc, Some uc) \<Rightarrow>
               (case group_rows (norm_columns df) pc uc (df_rows df) [] of
                  Inl e \<Rightarrow> []
                | Inr grouped \<Rightarrow> grouped)
           | _ \<Rightarrow> []))"

section \<open>Data model (scrapers/models.py) and session state\<close>

text \<open>
  The two result dictionaries. A field holds what the code stores in it: where the code
  stores a value taken from the page's JSON unchanged, the field is a \<open>json\<close>
  (\<open>JNull\<close> for Python's \<open>None\<close>).
\<close>

record product_item =
  item_platform :: string
  item_category :: string
  item_subcategory :: string
  item_clicked_label :: string
  item_name :: string
  item_brand :: json
  item_base_product_id :: json
  item_group_id :: json
  item_merchant_type :: json
  item_mrp :: rat
  item_price :: rat
  item_weight :: json
  item_shelf_life_in_hours :: "int option"
  item_eta :: string
  item_availability :: string
  item_inventory :: "int option"
  item_store_id :: json
  item_image_url :: json
  item_product_url :: string
  item_scraped_at :: string
  item_pincode_input :: string

record availability_result =
  res_input_pincode :: string
  res_url :: string
  res_platform :: string
  res_name :: json
  res_price :: rat
  res_mrp :: rat
  res_availability :: string
  res_seller_details :: json
  res_manufacturer_details :: json
  res_marketer_details :: json
  res_variant_count :: "int option"
  res_variant_in_stock_count :: "int option"
  res_inventory :: "int option"
  res_scraped_at :: string
  res_error :: "string option"
  res_description :: "json option"  \<comment> \<open>the extra key the Instamart probe adds; \<open>None\<close> when absent\<close>

text \<open>The scraper object's mutable field: \<open>self.delivery_eta\<close>.\<close>

record session =
  delivery_eta :: string

text \<open>
  A call on the browser page either returns (\<open>Inr\<close>) or raises (\<open>Inl msg\<close>). The page
  is given by the outcome of each call a function makes on it, in a record with one
  field per call; a theorem about every such record is about every behaviour of the
  page. Calls whose outcome the code discards (inside a \<open>try\<close> whose handler only logs,
  and whose result nothing reads) have no field.
\<close>

fun first_failure :: "(string + unit) list \<Rightarrow> string option" where
  \<comment> \<open>a run of awaited calls in sequence: the exception of the first that raises\<close>
  "first_failure [] = None"
| "first_failure (Inl e # rest) = Some e"
| "first_failure (Inr u # rest) = first_failure rest"

section \<open>Location setters\<close>

subsection \<open>The ETA patterns\<close>

fun search_from :: "(string \<Rightarrow> string option) \<Rightarrow> string \<Rightarrow> string option" where
  \<comment> \<open>\<open>re.search\<close>: the match at the leftmost position that has one\<close>
  "search_from m [] = m []"
| "search_from m (c # s) = (case m (c # s) of Some g \<Rightarrow> Some g | None \<Rightarrow> search_from m s)"

definition opt_s :: "string \<Rightarrow> string" where
  \<comment> \<open>the optional trailing \<open>s\<close> of the patterns, in either case\<close>
  "opt_s s = (if py_lower (take 1 s) = ''s'' then take 1 s else [])"

definition mins_at :: "string \<Rightarrow> string option" where
  \<comment> \<open>digits, optional white space, \<open>min\<close>, optional \<open>s\<close>, ignoring case, at the start of \<open>s\<close>\<close>
  "mins_at s =
     (let ds = takeWhile is_digit s; r1 = dropWhile is_digit s;
          ws = takeWhile py_isspace r1; r2 = dropWhile py_isspace r1
      in if ds \<noteq> [] \<and> py_lower (take 3 r2) = ''min''
         then Some (ds @ ws @ take 3 r2 @ opt_s (drop 3 r2))
         else None)"

definition minutes_or_mins_at :: "string \<Rightarrow> string option" where
  \<comment> \<open>Blinkit's alternation: digits, white space, \<open>minute\<close>, optional \<open>s\<close>; or a bare
     \<open>min\<close> with an optional \<open>s\<close>\<close>
  "minutes_or_mins_at s =
     (let ds = takeWhile is_digit s; r1 = dropWhile is_digit s;
          ws = takeWhile py_isspace r1; r2 = dropWhile py_isspace r1
      in if ds \<noteq> [] \<and> py_lower (take 6 r2) = ''minute''
         then Some (ds @ ws @ take 6 r2 @ opt_s (drop 6 r2))
         else if py_lower (take 3 s) = ''min''
         then Some (take 3 s @ opt_s (drop 3 s))
         else None)"

subsection \<open>Zepto (scrapers/zepto.py, set\_location)\<close>

record zepto_loc_page =
  zl_goto :: "string + unit"
  zl_click_select :: "string + unit"    \<comment> \<open>the click on the "Select Location" text\<close>
  zl_click_header :: "string + unit"    \<comment> \<open>the fallback click on the header's location element\<close>
  zl_wait_modal :: "string + unit"
  zl_wait_input :: "string + unit"
  zl_click_input :: "string + unit"
  zl_clear1 :: "string + unit"
  zl_clear2 :: "string + unit"
  zl_type_pincode :: "string + unit"
  zl_eta_visible :: "string + unit"
  zl_eta_text :: "string + string"
  zl_header_text :: "string + string option"  \<comment> \<open>\<open>None\<close>: the page has no header element\<close>

definition zepto_eta_text :: "zepto_loc_page \<Rightarrow> string" where
  "zepto_eta_text page =
     (case (case zl_eta_visible page of Inl e \<Rightarrow> Inl e | Inr u \<Rightarrow> zl_eta_text page) of
        Inr t \<Rightarrow> t
      | Inl e \<Rightarrow>
          (case zl_header_text page of
             Inr (Some t) \<Rightarrow> t
           | _ \<Rightarrow> ''N/A''))"

definition zepto_extract_eta :: "zepto_loc_page \<Rightarrow> session \<Rightarrow> session" where
  "zepto_extract_eta page s =
     (case search_from mins_at (zepto_eta_text page) of
        Some g \<Rightarrow> s\<lparr>delivery_eta := py_lower g\<rparr>
      | None \<Rightarrow> s)"

definition zepto_location_steps :: "zepto_loc_page \<Rightarrow> session \<Rightarrow> string option \<times> session" where
  \<comment> \<open>the body of the outer \<open>try\<close>: the exception that reaches its handler, if any, and the session\<close>
  "zepto_location_steps page s =
     (case first_failure
         [zl_goto page,
          (case zl_click_select page of Inl e \<Rightarrow> zl_click_header page | Inr u \<Rightarrow> Inr u),
          zl_wait_modal page, zl_wait_input page, zl_click_input page,
          zl_clear1 page, zl_clear2 page, zl_type_pincode page] of
        Some e \<Rightarrow> (Some e, s)
      | None \<Rightarrow> (None, zepto_extract_eta page s))"

definition zepto_set_location :: "zepto_loc_page \<Rightarrow> string \<Rightarrow> session \<Rightarrow> string + session" where
  \<comment> \<open>the handler logs, tries a screenshot and returns\<close>
  "zepto_set_location page pincode s =
     (case zepto_location_steps page s of
        (None, s') \<Rightarrow> Inr s'
      | (Some e, s') \<Rightarrow> Inr s')"

subsection \<open>Blinkit (scrapers/blinkit.py, set\_location)\<close>

record blinkit_loc_page =
  bl_goto :: "string + unit"
  bl_wait_modal :: "string + unit"
  bl_eta_title :: "string + string option"  \<comment> \<open>the text of the location bar's title; \<open>None\<close>: no such element\<close>

definition blinkit_extract_eta :: "blinkit_loc_page \<Rightarrow> session \<Rightarrow> session" where
  "blinkit_extract_eta page s =
     (case bl_eta_title page of
        Inr (Some t) \<Rightarrow>
          (case search_from minutes_or_mins_at t of
             Some g \<Rightarrow> s\<lparr>delivery_eta := py_lower g\<rparr>
           | None \<Rightarrow> s)
      | _ \<Rightarrow> s)"

definition blinkit_location_steps :: "blinkit_loc_page \<Rightarrow> session \<Rightarrow> string option \<times> session" where
  "blinkit_location_steps page s =
     (case first_failure [bl_goto page, bl_wait_modal page] of
        Some e \<Rightarrow> (Some e, s)
      | None \<Rightarrow> (None, blinkit_extract_eta page s))"

definition blinkit_set_location :: "blinkit_loc_page \<Rightarrow> string \<Rightarrow> session \<Rightarrow> string + session" where
  "blinkit_set_location page pincode s =
     (case blinkit_location_steps page s of
        (None, s') \<Rightarrow> Inr s'
      | (Some e, s') \<Rightarrow> Inr s')"

section \<open>Availability probes (scrape\_availability)\<close>

record product_page =
  pp_now :: string                              \<comment> \<open>what \<open>time.strftime\<close> returns when the probe starts\<close>
  pp_goto :: "string + unit"
  pp_wait :: "string + unit"
  pp_content :: "string + string"
  pp_h1 :: "string + string option"             \<comment> \<open>the text of the first heading; \<open>None\<close>: no heading\<close>
  pp_body_text :: "string + string"
  pp_variant_elements :: "string + nat"         \<comment> \<open>how many elements the variant selector finds\<close>
  pp_ld_scripts :: "string + json option list"  \<comment> \<open>each linked-data script, parsed; \<open>None\<close> where reading or parsing it raised\<close>

definition initial_result :: "string \<Rightarrow> string \<Rightarrow> string \<Rightarrow> int option \<Rightarrow> availability_result" where
  "initial_result platform url now variants =
     \<lparr>res_input_pincode = [], res_url = url, res_platform = platform, res_name = JStr ''N/A'',
      res_price = 0, res_mrp = 0, res_availability = ''Unknown'',
      res_seller_details = JNull, res_manufacturer_details = JNull, res_marketer_details = JNull,
      res_variant_count = variants, res_variant_in_stock_count = variants, res_inventory = None,
      res_scraped_at = now, res_error = None, res_description = None\<rparr>"

definition normalize_content :: "string \<Rightarrow> string" where
  \<comment> \<open>an escaped quote becomes a quote, then a doubled backslash becomes one\<close>
  "normalize_content content =
     py_replace [CHR 0x5C, CHR 0x5C] [CHR 0x5C] (py_replace [CHR 0x5C, CHR 0x22] [CHR 0x22] content)"

definition not_found_marker :: string where
  \<comment> \<open>"page you're looking for", written with the typographic apostrophe U+2019 (three bytes)\<close>
  "not_found_marker = ''page you'' @ [CHR 0xE2, CHR 0x80, CHR 0x99] @ ''re looking for''"

subsection \<open>Zepto (scrapers/zepto.py)\<close>

definition is_hex_dash :: "char \<Rightarrow> bool" where
  "is_hex_dash c = (c \<in> set ''abcdef0123456789-'')"

definition pvid_at :: "string \<Rightarrow> string option" where
  \<comment> \<open>\<open>pvid/\<close> and 36 characters of lower-case hex digits and dashes\<close>
  "pvid_at s =
     (let g = take 36 (drop 5 s)
      in if take 5 s = ''pvid/'' \<and> length g = 36 \<and> list_all is_hex_dash g then Some g else None)"

definition zepto_is_candidate :: "json \<Rightarrow> bool" where
  "zepto_is_candidate p = (is_dict p \<and> truthy (jget p ''id'') \<and> truthy (jget p ''name''))"

definition zepto_candidates :: "pylib \<Rightarrow> string \<Rightarrow> json list" where
  "zepto_candidates L content =
     filter zepto_is_candidate
       (List.map_filter (\<lambda>d. d) (json_scan L ZeptoIdAnchor (normalize_content content)))"

fun largest_first :: "('a \<Rightarrow> nat) \<Rightarrow> 'a \<Rightarrow> 'a list \<Rightarrow> 'a" where
  \<comment> \<open>the head of the list after the stable sort by descending key: the earliest element
     whose key is largest\<close>
  "largest_first k best [] = best"
| "largest_first k best (c # cs) = largest_first k (if k best < k c then c else best) cs"

definition zepto_pick :: "pylib \<Rightarrow> string \<Rightarrow> json list \<Rightarrow> json option" where
  "zepto_pick L url candidates =
     (let by_id =
            (case search_from pvid_at url of
               None \<Rightarrow> None
             | Some target_id \<Rightarrow> List.find (\<lambda>c. eq_str (jget c ''id'') target_id) candidates)
      in if (case by_id of None \<Rightarrow> True | Some j \<Rightarrow> \<not> truthy j)
         then (case candidates of
                 [] \<Rightarrow> by_id
               | c # cs \<Rightarrow> Some (largest_first (\<lambda>x. length (py_str L x)) c cs))
         else by_id)"

definition scaled_amount :: "pylib \<Rightarrow> json \<Rightarrow> string + rat option" where
  \<comment> \<open>\<open>if v: field = float(v) / 100\<close>; \<open>None\<close> when \<open>v\<close> is falsy and the field keeps its value\<close>
  "scaled_amount L v =
     (if truthy v
      then (case py_float L v of Inl e \<Rightarrow> Inl e | Inr x \<Rightarrow> Inr (Some (x / 100)))
      else Inr None)"

fun count_in_stock :: "json list \<Rightarrow> string + int" where
  \<comment> \<open>\<open>sum(1 for v in vs if not v.get("isSoldOut"))\<close>\<close>
  "count_in_stock [] = Inr 0"
| "count_in_stock (v # vs) =
     (if is_dict v
      then (case count_in_stock vs of
              Inl e \<Rightarrow> Inl e
            | Inr n \<Rightarrow> Inr (if truthy (jget v ''isSoldOut'') then n else n + 1))
      else Inl ''AttributeError'')"

definition variants_in_stock :: "json \<Rightarrow> string + int" where
  \<comment> \<open>iterating a non-empty string or dict yields strings, which have no \<open>get\<close>\<close>
  "variants_in_stock pv = (case pv of JArr vs \<Rightarrow> count_in_stock vs | _ \<Rightarrow> Inl ''AttributeError'')"

definition zepto_fill :: "pylib \<Rightarrow> json \<Rightarrow> availability_result \<Rightarrow> string option \<times> availability_result" where
  \<comment> \<open>the assignments under \<open>if extracted_json\<close>: the exception raised, if any, and the
     result as the assignments before it left it\<close>
  "zepto_fill L j r =
     (let r1 = r\<lparr>res_name := jget_default j ''name'' (JStr ''N/A'')\<rparr>
      in case scaled_amount L (jget j ''sellingPrice'') of
           Inl e \<Rightarrow> (Some e, r1)
         | Inr sp \<Rightarrow>
             (let r2 = (case sp of None \<Rightarrow> r1 | Some x \<Rightarrow> r1\<lparr>res_price := x\<rparr>)
              in case scaled_amount L (jget j ''mrp'') of
                   Inl e \<Rightarrow> (Some e, r2)
                 | Inr mp \<Rightarrow>
                     (let r3 = (case mp of None \<Rightarrow> r2 | Some x \<Rightarrow> r2\<lparr>res_mrp := x\<rparr>);
                          r4 = (if truthy (jget j ''isSoldOut'')
                                then r3\<lparr>res_availability := ''Out of Stock'', res_variant_in_stock_count := Some 0\<rparr>
                                else r3\<lparr>res_availability := ''In Stock''\<rparr>);
                          r5 = r4\<lparr>res_manufacturer_details :=
                                      py_or (jget j ''manufacturerName'') (jget j ''manufacturerAddress''),
                                   res_marketer_details := jget j ''importedBy'',
                                   res_seller_details := py_or (jget j ''sellerName'') (JStr ''Zepto'')\<rparr>;
                          pv = jget j ''productVariants''
                      in if truthy pv
                         then (case py_len pv of
                                 Inl e \<Rightarrow> (Some e, r5)
                               | Inr n \<Rightarrow>
                                   (let r6 = r5\<lparr>res_variant_count := Some (int n)\<rparr>
                                    in case variants_in_stock pv of
                                         Inl e \<Rightarrow> (Some e, r6)
                                       | Inr k \<Rightarrow> (None, r6\<lparr>res_variant_in_stock_count := Some k\<rparr>)))
                         else (None, r5))))"

definition zepto_json_block :: "pylib \<Rightarrow> string \<Rightarrow> string \<Rightarrow> availability_result \<Rightarrow> string option \<times> availability_result" where
  \<comment> \<open>the body of the inner \<open>try\<close> around the JSON extraction\<close>
  "zepto_json_block L url content r =
     (case zepto_pick L url (zepto_candidates L content) of
        None \<Rightarrow> (None, r)
      | Some j \<Rightarrow> if truthy j then zepto_fill L j r else (None, r))"

definition zepto_dom_block :: "pylib \<Rightarrow> product_page \<Rightarrow> availability_result \<Rightarrow> string option \<times> availability_result" where
  "zepto_dom_block L page r =
     (let r1 = (if eq_str (res_name r) ''N/A''
                then (case pp_h1 page of Inr (Some t) \<Rightarrow> r\<lparr>res_name := JStr t\<rparr> | _ \<Rightarrow> r)
                else r)
      in case pp_body_text page of
           Inl e \<Rightarrow> (Some e, r1)
         | Inr body \<Rightarrow>
             (let r2 = (if \<not> truthy (res_manufacturer_details r1)
                        then r1\<lparr>res_manufacturer_details := opt_json (line_after L ''Manufacturer Details'' body)\<rparr>
                        else r1);
                  r3 = (if \<not> truthy (res_marketer_details r2)
                        then r2\<lparr>res_marketer_details := opt_json (line_after L ''Marketed By'' body)\<rparr>
                        else r2);
                  r4 = (case pp_variant_elements page of
                          Inr n \<Rightarrow> if 0 < n then r3\<lparr>res_variant_count := Some (int n)\<rparr> else r3
                        | Inl e \<Rightarrow> r3)
              in (None, r4)))"

definition zepto_probe_steps :: "pylib \<Rightarrow> product_page \<Rightarrow> string \<Rightarrow> availability_result \<Rightarrow> string option \<times> availability_result" where
  \<comment> \<open>the body of the outer \<open>try\<close>; the inner handler of the JSON block only logs\<close>
  "zepto_probe_steps L page url r =
     (case first_failure [pp_goto page, pp_wait page] of
        Some e \<Rightarrow> (Some e, r)
      | None \<Rightarrow>
          (case pp_content page of
             Inl e \<Rightarrow> (Some e, r)
           | Inr content \<Rightarrow>
               if py_in not_found_marker content
               then (None, r\<lparr>res_availability := ''Not Found'', res_error := Some ''404 Not Found''\<rparr>)
               else zepto_dom_block L page (snd (zepto_json_block L url content r))))"

definition zepto_scrape_availability :: "pylib \<Rightarrow> product_page \<Rightarrow> string \<Rightarrow> string + availability_result" where
  "zepto_scrape_availability L page url =
     (case zepto_probe_steps L page url (initial_result ''zepto'' url (pp_now page) (Some 1)) of
        (None, r) \<Rightarrow> Inr r
      | (Some e, r) \<Rightarrow> Inr (r\<lparr>res_error := Some e, res_availability := ''Error''\<rparr>))"

subsection \<open>Blinkit (scrapers/blinkit.py)\<close>

definition prid_at :: "string \<Rightarrow> string option" where
  \<comment> \<open>\<open>prid/\<close> and the digits after it\<close>
  "prid_at s =
     (let g = takeWhile is_digit (drop 5 s)
      in if take 5 s = ''prid/'' \<and> g \<noteq> [] then Some g else None)"

fun blinkit_find_target :: "pylib \<Rightarrow> string \<Rightarrow> json option list \<Rightarrow> json option" where
  "blinkit_find_target L target_id [] = None"
| "blinkit_find_target L target_id (d # ds) =
     (case d of
        None \<Rightarrow> blinkit_find_target L target_id ds
      | Some p \<Rightarrow>
          if is_dict p \<and> py_str L (jget p ''product_id'') = target_id then Some p
          else blinkit_find_target L target_id ds)"

definition blinkit_target :: "pylib \<Rightarrow> string \<Rightarrow> string \<Rightarrow> json option" where
  "blinkit_target L url content =
     (case search_from prid_at url of
        None \<Rightarrow> None
      | Some target_id \<Rightarrow>
          blinkit_find_target L target_id (json_scan L BlinkitProductAnchor (normalize_content content)))"

definition blinkit_fill :: "pylib \<Rightarrow> json \<Rightarrow> availability_result \<Rightarrow> string option \<times> availability_result" where
  "blinkit_fill L j r =
     (let r1 = r\<lparr>res_name := jget_default j ''name'' (JStr ''N/A'')\<rparr>
      in case py_float L (jget_default j ''price'' (JInt 0)) of
           Inl e \<Rightarrow> (Some e, r1)
         | Inr x \<Rightarrow>
             (let r2 = r1\<lparr>res_price := x\<rparr>
              in case py_float L (jget_default j ''mrp'' (JInt 0)) of
                   Inl e \<Rightarrow> (Some e, r2)
                 | Inr y \<Rightarrow>
                     (let r3 = r2\<lparr>res_mrp := y\<rparr>
                      in case (if has_key j ''inventory''
                               then py_int L (py_or (jget j ''inventory'') (JInt 0))
                               else Inr 0) of
                           Inl e \<Rightarrow> (Some e, r3)
                         | Inr stock \<Rightarrow>
                             (None, r3\<lparr>res_inventory := Some stock,
                                        res_availability := (if 0 < stock then ''In Stock'' else ''Out of Stock'')\<rparr>))))"

definition blinkit_probe_steps :: "pylib \<Rightarrow> product_page \<Rightarrow> string \<Rightarrow> availability_result \<Rightarrow> string option \<times> availability_result" where
  "blinkit_probe_steps L page url r =
     (case first_failure [pp_goto page, pp_wait page] of
        Some e \<Rightarrow> (Some e, r)
      | None \<Rightarrow>
          (case pp_content page of
             Inl e \<Rightarrow> (Some e, r)
           | Inr content \<Rightarrow>
               (case (case blinkit_target L url content of
                        Some j \<Rightarrow>
                          if truthy j then blinkit_fill L j r
                          else (None, (case pp_h1 page of Inr (Some t) \<Rightarrow> r\<lparr>res_name := JStr t\<rparr> | _ \<Rightarrow> r))
                      | None \<Rightarrow> (None, (case pp_h1 page of Inr (Some t) \<Rightarrow> r\<lparr>res_name := JStr t\<rparr> | _ \<Rightarrow> r))) of
                  (Some e, r1) \<Rightarrow> (Some e, r1)
                | (None, r1) \<Rightarrow>
                    (case pp_body_text page of
                       Inl e \<Rightarrow> (Some e, r1)
                     | Inr body \<Rightarrow>
                         (let seller = (case section_after L ''Seller Details'' body of
                                          None \<Rightarrow> section_after L ''Sold By'' body
                                        | Some t \<Rightarrow> if t \<noteq> [] then Some t else section_after L ''Sold By'' body);
                              r2 = r1\<lparr>res_manufacturer_details := opt_json (section_after L ''Manufacturer Details'' body),
                                       res_marketer_details := opt_json (section_after L ''Marketed By'' body),
                                       res_seller_details := opt_json seller\<rparr>;
                              r3 = (case pp_variant_elements page of
                                      Inl e \<Rightarrow> r2
                                    | Inr n \<Rightarrow>
                                        r2\<lparr>res_variant_count := Some 1,
                                           res_variant_in_stock_count :=
                                             Some (if res_availability r2 = ''In Stock'' then 1 else 0)\<rparr>)
                          in (None, r3))))))"

definition blinkit_scrape_availability :: "pylib \<Rightarrow> product_page \<Rightarrow> string \<Rightarrow> string + availability_result" where
  \<comment> \<open>the handler records the exception and leaves every other field as it is\<close>
  "blinkit_scrape_availability L page url =
     (case blinkit_probe_steps L page url (initial_result ''blinkit'' url (pp_now page) None) of
        (None, r) \<Rightarrow> Inr r
      | (Some e, r) \<Rightarrow> Inr (r\<lparr>res_error := Some e\<rparr>))"

subsection \<open>Instamart (scrapers/instamart.py)\<close>

fun first_product :: "json list \<Rightarrow> string + json option" where
  \<comment> \<open>\<open>next((item for item in data if item.get('@type') == 'Product'), None)\<close>\<close>
  "first_product [] = Inr None"
| "first_product (item # rest) =
     (if is_dict item
      then (if eq_str (jget item ''@type'') ''Product'' then Inr (Some item) else first_product rest)
      else Inl ''AttributeError'')"

definition instamart_product_data :: "json \<Rightarrow> string + json option" where
  "instamart_product_data data =
     (case data of
        JObj kvs \<Rightarrow> Inr (if eq_str (jget data ''@type'') ''Product'' then Some data else None)
      | JArr items \<Rightarrow> first_product items
      | _ \<Rightarrow> Inr None)"

definition contains_instock :: "json \<Rightarrow> string + bool" where
  \<comment> \<open>\<open>"InStock" in x\<close>\<close>
  "contains_instock x =
     (case x of
        JStr s \<Rightarrow> Inr (py_in ''InStock'' s)
      | JArr xs \<Rightarrow> Inr (JStr ''InStock'' \<in> set xs)
      | JObj kvs \<Rightarrow> Inr (map_of kvs ''InStock'' \<noteq> None)
      | _ \<Rightarrow> Inl ''TypeError'')"

definition instamart_offers :: "pylib \<Rightarrow> json \<Rightarrow> availability_result \<Rightarrow> string option \<times> availability_result" where
  "instamart_offers L offers r =
     (if is_dict offers
      then (case py_float L (jget_default offers ''price'' (JInt 0)) of
              Inl e \<Rightarrow> (Some e, r)
            | Inr x \<Rightarrow>
                (case contains_instock (jget_default offers ''availability'' (JStr [])) of
                   Inl e \<Rightarrow> (Some e, r\<lparr>res_price := x\<rparr>)
                 | Inr b \<Rightarrow>
                     (None, r\<lparr>res_price := x,
                              res_availability := (if b then ''In Stock'' else ''Out of Stock'')\<rparr>)))
      else (None, r))"

definition instamart_script :: "pylib \<Rightarrow> json \<Rightarrow> availability_result \<Rightarrow> bool \<times> availability_result" where
  \<comment> \<open>one linked-data script: whether the loop breaks after it, and the result it leaves;
     an exception moves on to the next script\<close>
  "instamart_script L data r =
     (case instamart_product_data data of
        Inl e \<Rightarrow> (False, r)
      | Inr None \<Rightarrow> (False, r)
      | Inr (Some pd) \<Rightarrow>
          if \<not> truthy pd then (False, r)
          else
            (case instamart_offers L (jget_default pd ''offers'' (JObj []))
                    (r\<lparr>res_name := jget_default pd ''name'' (JStr ''N/A'')\<rparr>) of
               (Some e, r1) \<Rightarrow> (False, r1)
             | (None, r1) \<Rightarrow>
                 (let brand_org = jget_default pd ''brand'' (JObj []);
                      r2 = (case brand_org of
                              JObj kvs \<Rightarrow> r1\<lparr>res_manufacturer_details := jget brand_org ''name''\<rparr>
                            | JStr b \<Rightarrow> r1\<lparr>res_manufacturer_details := JStr b\<rparr>
                            | _ \<Rightarrow> r1)
                  in (True, r2\<lparr>res_description := Some (jget pd ''description'')\<rparr>))))"

fun instamart_scripts :: "pylib \<Rightarrow> json option list \<Rightarrow> availability_result \<Rightarrow> availability_result" where
  "instamart_scripts L [] r = r"
| "instamart_scripts L (d # ds) r =
     (case d of
        None \<Rightarrow> instamart_scripts L ds r
      | Some data \<Rightarrow>
          (case instamart_script L data r of
             (True, r1) \<Rightarrow> r1
           | (False, r1) \<Rightarrow> instamart_scripts L ds r1))"

definition instamart_probe_steps :: "pylib \<Rightarrow> product_page \<Rightarrow> availability_result \<Rightarrow> string option \<times> availability_result" where
  "instamart_probe_steps L page r =
     (case first_failure [pp_goto page, pp_wait page] of
        Some e \<Rightarrow> (Some e, r)
      | None \<Rightarrow>
          (let r1 = (case pp_ld_scripts page of Inl e \<Rightarrow> r | Inr scripts \<Rightarrow> instamart_scripts L scripts r)
           in case pp_body_text page of
                Inl e \<Rightarrow> (Some e, r1)
              | Inr body \<Rightarrow>
                  (let r2 = (if \<not> truthy (res_manufacturer_details r1)
                             then r1\<lparr>res_manufacturer_details := opt_json (section_after L ''Manufacturer Details'' body)\<rparr>
                             else r1);
                       r3 = r2\<lparr>res_marketer_details := opt_json (section_after L ''Marketed By'' body),
                                res_seller_details := opt_json (section_after L ''Seller Details'' body),
                                res_variant_count := Some 1\<rparr>;
                       r4 = (case pp_variant_elements page of
                               Inr n \<Rightarrow> if 0 < n then r3\<lparr>res_variant_count := Some (int n)\<rparr> else r3
                             | Inl e \<Rightarrow> r3);
                       r5 = (if res_availability r4 \<noteq> ''In Stock''
                             then r4\<lparr>res_variant_in_stock_count := Some 0\<rparr>
                             else r4)
                   in (None, r5))))"

definition instamart_scrape_availability :: "pylib \<Rightarrow> product_page \<Rightarrow> string \<Rightarrow> string + availability_result" where
  "instamart_scrape_availability L page url =
     (case instamart_probe_steps L page (initial_result ''instamart'' url (pp_now page) (Some 1)) of
        (None, r) \<Rightarrow> Inr r
      | (Some e, r) \<Rightarrow> Inr (r\<lparr>res_error := Some e\<rparr>))"

section \<open>Assortment extractors (scrape\_assortment)\<close>

record listing_page =
  lp_now :: string                              \<comment> \<open>what \<open>time.strftime\<close> returns for the scan\<close>
  lp_first_content :: "string + string"         \<comment> \<open>Zepto: the markup read for the not-found check\<close>
  lp_url :: string                              \<comment> \<open>Zepto: \<open>page.url\<close> at that check\<close>
  lp_nav_click :: "string + unit"               \<comment> \<open>Zepto: the click on the category link\<close>
  lp_nav_wait :: "string + unit"
  lp_goto :: "string + unit"
  lp_wait :: "string + unit"
  lp_content :: "string + string"
  lp_screenshot :: "string + unit"
  lp_delivery_eta :: string                     \<comment> \<open>Instamart: what \<open>scrape_delivery_eta\<close> returns (it raises nothing)\<close>
  lp_ld_scripts :: "string + json option list"  \<comment> \<open>Instamart: each linked-data script, parsed\<close>

record scan_context =
  ctx_category :: string
  ctx_subcategory :: string
  ctx_clicked_label :: string
  ctx_eta :: string
  ctx_scraped_at :: string
  ctx_pincode :: string

definition zepto_base_url :: string where
  "zepto_base_url = ''https://www.zepto.com/''"

definition blinkit_base_url :: string where
  "blinkit_base_url = ''https://blinkit.com/''"


definition path_label :: "string \<Rightarrow> string" where
  \<comment> \<open>\<open>part.replace('-', ' ').title()\<close>\<close>
  "path_label part = py_title (py_replace ''-'' '' '' part)"

definition url_categories :: "string \<Rightarrow> string \<times> string" where
  \<comment> \<open>category and subcategory from the path after \<open>/cn/\<close>, up to \<open>/cid/\<close>\<close>
  "url_categories category_url =
     (case py_split ''/cn/'' category_url of
        a # b # rest \<Rightarrow>
          (case py_split ''/cid/'' b of
             [] \<Rightarrow> (''N/A'', ''N/A'')
           | path # after \<Rightarrow>
               (case py_split ''/'' path of
                  [] \<Rightarrow> (''N/A'', ''N/A'')
                | [c] \<Rightarrow> (path_label c, ''N/A'')
                | c # d # others \<Rightarrow> (path_label c, path_label d)))
      | _ \<Rightarrow> (''N/A'', ''N/A''))"

definition clicked_label_of :: "string \<Rightarrow> string \<Rightarrow> string" where
  "clicked_label_of category subcategory =
     (if subcategory \<noteq> ''N/A'' then category @ '' > '' @ subcategory else category)"

definition make_context :: "string \<times> string \<Rightarrow> string \<Rightarrow> string \<Rightarrow> string \<Rightarrow> scan_context" where
  "make_context cats eta now pincode =
     \<lparr>ctx_category = fst cats, ctx_subcategory = snd cats,
      ctx_clicked_label = clicked_label_of (fst cats) (snd cats),
      ctx_eta = eta, ctx_scraped_at = now, ctx_pincode = pincode\<rparr>"

definition nonzero_int :: "pylib \<Rightarrow> json \<Rightarrow> int option" where
  \<comment> \<open>\<open>try: v = int(x); if v == 0: v = None; except: pass\<close>, from \<open>None\<close>\<close>
  "nonzero_int L x = (case py_int L x of Inl e \<Rightarrow> None | Inr v \<Rightarrow> if v = 0 then None else Some v)"

subsection \<open>Zepto\<close>

definition zepto_dedup_step :: "json option \<Rightarrow> (string \<times> json) list \<Rightarrow> (string \<times> json) list" where
  \<comment> \<open>one anchor match: \<open>None\<close> where the decoder raised; a name that is not a string has no
     \<open>strip\<close>, and the match is skipped\<close>
  "zepto_dedup_step d json_products_map =
     (case d of
        None \<Rightarrow> json_products_map
      | Some p_data \<Rightarrow>
          if zepto_is_candidate p_data
          then (case jget p_data ''name'' of
                  JStr n \<Rightarrow>
                    (let name = py_strip n
                     in case map_of json_products_map name of
                          None \<Rightarrow> AList.update name p_data json_products_map
                        | Some existing \<Rightarrow>
                            if truthy (jget p_data ''mrp'') \<and> \<not> truthy (jget existing ''mrp'')
                            then AList.update name p_data json_products_map
                            else json_products_map)
                | _ \<Rightarrow> json_products_map)
          else json_products_map)"

definition zepto_dedup :: "json option list \<Rightarrow> (string \<times> json) list" where
  "zepto_dedup decoded = foldl (\<lambda>m d. zepto_dedup_step d m) [] decoded"

definition zepto_products_map :: "pylib \<Rightarrow> string \<Rightarrow> (string \<times> json) list" where
  "zepto_products_map L content = zepto_dedup (json_scan L ZeptoIdAnchor (normalize_content content))"

definition bad_keywords :: "string list" where
  "bad_keywords = [''detergent'', ''liquid'', ''powder'', ''cleaner'', ''soap'', ''wash'', ''shampoo'',
     ''harpic'', ''surf'', ''ariel'']"

definition produce_filtered :: "string \<Rightarrow> string \<Rightarrow> bool" where
  "produce_filtered category name =
     ((py_in ''vegetable'' (py_lower category) \<or> py_in ''fruit'' (py_lower category)) \<and>
      list_ex (\<lambda>k. py_in k (py_lower name)) bad_keywords)"

definition zepto_image_url :: "json \<Rightarrow> string + json" where
  "zepto_image_url p =
     (case jget p ''images'' of
        JArr (first # rest) \<Rightarrow>
          if is_dict first
          then (case jget_default first ''path'' (JStr ''N/A'') of
                  JStr u \<Rightarrow>
                    Inr (JStr (if u \<noteq> ''N/A'' \<and> \<not> py_startswith u ''http''
                               then ''https://cdn.zepto.com/production/'' @ u else u))
                | _ \<Rightarrow> Inl ''AttributeError'')
          else Inl ''AttributeError''
      | _ \<Rightarrow> Inr (JStr ''N/A''))"

definition zepto_item :: "pylib \<Rightarrow> scan_context \<Rightarrow> string \<Rightarrow> json \<Rightarrow> product_item option" where
  \<comment> \<open>\<open>None\<close>: the product is skipped, by the produce filter or by an exception\<close>
  "zepto_item L ctx name p =
     (if produce_filtered (ctx_category ctx) name then None
      else
        (case py_float L (jget_default p ''sellingPrice'' (JInt 0)) of
           Inl e \<Rightarrow> None
         | Inr selling \<Rightarrow>
             (case py_float L (jget_default p ''mrp'' (JInt 0)) of
                Inl e \<Rightarrow> None
              | Inr listed \<Rightarrow>
                  (case zepto_image_url p of
                     Inl e \<Rightarrow> None
                   | Inr img \<Rightarrow>
                       Some \<lparr>item_platform = ''zepto'',
                             item_category = ctx_category ctx,
                             item_subcategory = ctx_subcategory ctx,
                             item_clicked_label = ctx_clicked_label ctx,
                             item_name = name,
                             item_brand = py_or (jget p ''brand'') (py_or (jget p ''brandName'') (JStr ''Unknown'')),
                             item_base_product_id = jget p ''id'',
                             item_group_id = JNull,
                             item_merchant_type = JNull,
                             item_mrp = listed / 100,
                             item_price = selling / 100,
                             item_weight = py_or (jget p ''weight'') (py_or (jget p ''unitSize'') (JStr ''N/A'')),
                             item_shelf_life_in_hours =
                               (if has_key p ''shelf_life'' \<or> has_key p ''shelfLife''
                                then nonzero_int L (py_or (jget p ''shelfLife'') (py_or (jget p ''shelf_life'') (JInt 0)))
                                else None),
                             item_eta = ctx_eta ctx,
                             item_availability = (if truthy (jget p ''isSoldOut'') then ''Out of Stock'' else ''In Stock''),
                             item_inventory =
                               (if has_key p ''inventory'' \<or> has_key p ''available_quantity''
                                then nonzero_int L (py_or (jget p ''inventory'') (py_or (jget p ''available_quantity'') (JInt 0)))
                                else None),
                             item_store_id = jget p ''storeId'',
                             item_image_url = img,
                             item_product_url =
                               zepto_base_url @ ''pn/'' @ py_replace '' '' ''-'' (py_lower name) @ ''/pvid/''
                                 @ py_str L (jget p ''id''),
                             item_scraped_at = ctx_scraped_at ctx,
                             item_pincode_input = ctx_pincode ctx\<rparr>))))"

definition zepto_items :: "pylib \<Rightarrow> scan_context \<Rightarrow> (string \<times> json) list \<Rightarrow> product_item list" where
  "zepto_items L ctx json_products_map = List.map_filter (\<lambda>(name, p). zepto_item L ctx name p) json_products_map"

definition zepto_navigation_lost :: "listing_page \<Rightarrow> string \<Rightarrow> bool" where
  \<comment> \<open>the smart-navigation block returns the empty list: the page is the not-found page or
     the home page instead of the deep link, and the click on the category link (its
     selector built from the URL) or the wait after it raises\<close>
  "zepto_navigation_lost page category_url =
     (case lp_first_content page of
        Inl e \<Rightarrow> False
      | Inr content \<Rightarrow>
          (let is_404 = (py_in ''made an egg-sit'' content \<or> py_in not_found_marker content);
               base_url_clean = py_rstrip_char CHR ''/'' zepto_base_url;
               is_redirected_home = (py_rstrip_char CHR ''/'' (lp_url page) = base_url_clean \<and>
                                     py_rstrip_char CHR ''/'' category_url \<noteq> base_url_clean)
           in (is_404 \<or> is_redirected_home) \<and>
              first_failure [lp_nav_click page, lp_nav_wait page] \<noteq> None))"

definition zepto_scrape_assortment :: "pylib \<Rightarrow> listing_page \<Rightarrow> string \<Rightarrow> string \<Rightarrow> session
    \<Rightarrow> string + product_item list" where
  "zepto_scrape_assortment L page category_url pincode s =
     (if zepto_navigation_lost page category_url then Inr []
      else
        (case lp_content page of
           Inl e \<Rightarrow> Inr []
         | Inr content \<Rightarrow>
             Inr (zepto_items L
                    (make_context (url_categories category_url) (delivery_eta s) (lp_now page) pincode)
                    (zepto_products_map L content))))"

subsection \<open>Blinkit\<close>

definition blinkit_dedup_step :: "pylib \<Rightarrow> json option \<Rightarrow> (string \<times> json) list \<Rightarrow> (string \<times> json) list" where
  "blinkit_dedup_step L d products_map =
     (case d of
        None \<Rightarrow> products_map
      | Some prod_obj \<Rightarrow>
          if is_dict prod_obj
          then (let pid = py_str L (py_or (jget prod_obj ''product_id'') (jget prod_obj ''id''))
                in if pid \<noteq> [] \<and> map_of products_map pid = None
                   then AList.update pid prod_obj products_map
                   else products_map)
          else products_map)"

definition blinkit_dedup :: "pylib \<Rightarrow> json option list \<Rightarrow> (string \<times> json) list" where
  "blinkit_dedup L decoded = foldl (\<lambda>m d. blinkit_dedup_step L d m) [] decoded"

definition blinkit_products_map :: "pylib \<Rightarrow> string \<Rightarrow> (string \<times> json) list" where
  "blinkit_products_map L content = blinkit_dedup L (json_scan L BlinkitListAnchor content)"

definition blinkit_unavailable :: "json \<Rightarrow> bool" where
  \<comment> \<open>\<open>p.get('unavailable_quantity') == 1 or p.get('inventory') == 0\<close>\<close>
  "blinkit_unavailable p = (eq_int (jget p ''unavailable_quantity'') 1 \<or> eq_int (jget p ''inventory'') 0)"

definition blinkit_item :: "pylib \<Rightarrow> scan_context \<Rightarrow> string \<Rightarrow> json \<Rightarrow> product_item option" where
  \<comment> \<open>\<open>None\<close>: an exception skipped the product (\<open>float\<close> of the prices, \<open>lower\<close> of a
     name that is not a string)\<close>
  "blinkit_item L ctx pid p =
     (case py_float L (jget_default p ''mrp'' (JInt 0)) of
        Inl e \<Rightarrow> None
      | Inr listed \<Rightarrow>
          (case py_float L (jget_default p ''price'' (JInt 0)) of
             Inl e \<Rightarrow> None
           | Inr selling \<Rightarrow>
               (case py_or (jget p ''product_name'') (py_or (jget p ''display_name'') (JStr ''Unknown'')) of
                  JStr name \<Rightarrow>
                    Some \<lparr>item_platform = ''blinkit'',
                          item_category = ctx_category ctx,
                          item_subcategory = ctx_subcategory ctx,
                          item_clicked_label = ctx_clicked_label ctx,
                          item_name = name,
                          item_brand = py_or (jget p ''brand'') (JStr ''Unknown''),
                          item_base_product_id = JStr pid,
                          item_group_id = py_or (jget p ''group_id'') (jget p ''groupId''),
                          item_merchant_type = py_or (jget p ''merchant_type'') (jget p ''merchantType''),
                          item_mrp = listed,
                          item_price = selling,
                          item_weight = py_or (jget p ''unit'') (py_or (jget p ''quantity_info'') (JStr ''N/A'')),
                          item_shelf_life_in_hours =
                            (if has_key p ''shelf_life'' \<or> has_key p ''shelf_life_hours''
                             then nonzero_int L (py_or (jget p ''shelf_life_hours'') (py_or (jget p ''shelf_life'') (JInt 0)))
                             else None),
                          item_eta = ctx_eta ctx,
                          item_availability = (if blinkit_unavailable p then ''Out of Stock'' else ''In Stock''),
                          item_inventory =
                            (if has_key p ''inventory'' \<and> jget p ''inventory'' \<noteq> JNull
                             then (case py_int L (jget p ''inventory'') of Inl e \<Rightarrow> None | Inr v \<Rightarrow> Some v)
                             else None),
                          item_store_id = JStr (py_str L (py_or (jget p ''merchant_id'') (JStr ''Unknown''))),
                          item_image_url = py_or (jget p ''image_url'') (JStr ''N/A''),
                          item_product_url =
                            blinkit_base_url @ ''prn/'' @ py_replace '' '' ''-'' (py_lower name) @ ''/prid/'' @ pid,
                          item_scraped_at = ctx_scraped_at ctx,
                          item_pincode_input = ctx_pincode ctx\<rparr>
                | _ \<Rightarrow> None)))"

definition blinkit_items :: "pylib \<Rightarrow> scan_context \<Rightarrow> (string \<times> json) list \<Rightarrow> product_item list" where
  "blinkit_items L ctx products_map = List.map_filter (\<lambda>(pid, p). blinkit_item L ctx pid p) products_map"

definition failed_scan :: "listing_page \<Rightarrow> 'a \<Rightarrow> string + 'a" where
  \<comment> \<open>the outer handler of Blinkit and Instamart: it awaits a screenshot, unguarded, and
     the function then returns what it has\<close>
  "failed_scan page results = (case lp_screenshot page of Inl e \<Rightarrow> Inl e | Inr u \<Rightarrow> Inr results)"

definition blinkit_scrape_assortment :: "pylib \<Rightarrow> listing_page \<Rightarrow> string \<Rightarrow> string \<Rightarrow> session
    \<Rightarrow> string + product_item list" where
  "blinkit_scrape_assortment L page category_url pincode s =
     (case first_failure [lp_goto page, lp_wait page] of
        Some e \<Rightarrow> failed_scan page []
      | None \<Rightarrow>
          (case lp_content page of
             Inl e \<Rightarrow> failed_scan page []
           | Inr content \<Rightarrow>
               Inr (blinkit_items L
                      (make_context (url_categories category_url) (delivery_eta s) (lp_now page) pincode)
                      (blinkit_products_map L content))))"

definition blinkit_pid :: "pylib \<Rightarrow> json \<Rightarrow> string" where
  \<comment> \<open>the key Blinkit's scan files a record under\<close>
  "blinkit_pid L p = py_str L (py_or (jget p ''product_id'') (jget p ''id''))"

subsection \<open>Instamart\<close>















section \<open>Run orchestrator (run\_zepto\_availability.py)\<close>

text \<open>
  The loop of \<open>main\<close> over \<open>data.items()\<close>, for a scraper given by its two methods. A
  job is one pincode with the page as \<open>set_location\<close> will find it and, for each URL in
  input order, the page as the probe will find it. A raise of \<open>set_location\<close> skips the
  pincode's URLs (\<open>continue\<close>); a raise of the probe skips that URL.
\<close>

type_synonym ('lp, 'pp) job = "string \<times> 'lp \<times> (string \<times> 'pp) list"

fun probe_targets :: "('pp \<Rightarrow> string \<Rightarrow> string + availability_result) \<Rightarrow> string
    \<Rightarrow> (string \<times> 'pp) list \<Rightarrow> availability_result list" where
  "probe_targets probe pincode [] = []"
| "probe_targets probe pincode ((url, page) # rest) =
     (case probe page url of
        Inl e \<Rightarrow> probe_targets probe pincode rest
      | Inr res \<Rightarrow> res\<lparr>res_input_pincode := pincode\<rparr> # probe_targets probe pincode rest)"

fun run_pincodes :: "('lp \<Rightarrow> string \<Rightarrow> session \<Rightarrow> string + session)
    \<Rightarrow> ('pp \<Rightarrow> string \<Rightarrow> string + availability_result)
    \<Rightarrow> ('lp, 'pp) job list \<Rightarrow> session \<Rightarrow> availability_result list" where
  "run_pincodes set_location probe [] s = []"
| "run_pincodes set_location probe ((pincode, lpage, targets) # rest) s =
     (case set_location lpage pincode s of
        Inl e \<Rightarrow> run_pincodes set_location probe rest s
      | Inr s' \<Rightarrow> probe_targets probe pincode targets @ run_pincodes set_location probe rest s')"

definition initial_session :: session where
  "initial_session = \<lparr>delivery_eta = ''N/A''\<rparr>"

definition run_scraper :: "('lp \<Rightarrow> string \<Rightarrow> session \<Rightarrow> string + session)
    \<Rightarrow> ('pp \<Rightarrow> string \<Rightarrow> string + availability_result)
    \<Rightarrow> string + unit \<Rightarrow> ('lp, 'pp) job list \<Rightarrow> availability_result list" where
  \<comment> \<open>\<open>results\<close> when \<open>main\<close> reaches its output step; \<open>started\<close> is the outcome of \<open>scraper.start()\<close>\<close>
  "run_scraper set_location probe started jobs =
     (case started of
        Inl e \<Rightarrow> []
      | Inr u \<Rightarrow> run_pincodes set_location probe jobs initial_session)"

definition zepto_main :: "pylib \<Rightarrow> string + unit \<Rightarrow> (zepto_loc_page, product_page) job list \<Rightarrow> availability_result list" where
  \<comment> \<open>\<open>main\<close> as the repository has it: the loop bound to \<open>ZeptoScraper\<close>\<close>
  "zepto_main L started jobs = run_scraper zepto_set_location (zepto_scrape_availability L) started jobs"

fun job_targets :: "('lp, 'pp) job \<Rightarrow> (string \<times> string) list" where
  \<comment> \<open>the (pincode, URL) pairs of a job, in input order\<close>
  "job_targets (pincode, lpage, targets) = map (\<lambda>t. (pincode, fst t)) targets"

section \<open>Sample inputs\<close>

text \<open>Concrete tables, libraries and pages, used where a property is evaluated at an input.\<close>

definition sample_df :: dataframe where
  "sample_df = \<lparr>df_columns = ['' Pincode '', ''Product_Url''],
      df_rows = [[''560001.0'', ''nan''], [''560001.0'', '' ''], [''110001'', '' http://a '']]\<rparr>"

definition stub_lib :: "json option list \<Rightarrow> pylib" where
  "stub_lib scanned =
     \<lparr>float_of_str = (\<lambda>s. None), int_of_str = (\<lambda>s. None), repr_of = (\<lambda>j. []),
      hash_of = (\<lambda>j. 0), json_scan = (\<lambda>a t. scanned), line_after = (\<lambda>k t. None),
      section_after = (\<lambda>k t. None), weight_in = (\<lambda>n. None)\<rparr>"

definition quiet_page :: "string \<Rightarrow> product_page" where
  "quiet_page content =
     \<lparr>pp_now = ''2024-01-01 00:00:00'', pp_goto = Inr (), pp_wait = Inr (), pp_content = Inr content,
      pp_h1 = Inr None, pp_body_text = Inr [], pp_variant_elements = Inr 0, pp_ld_scripts = Inr []\<rparr>"

definition stocked_object :: json where
  "stocked_object = JObj [(''product_id'', JInt 123), (''name'', JStr ''Milk''), (''price'', JInt 30),
     (''mrp'', JInt 32), (''inventory'', JInt 5)]"

definition body_fails_page :: product_page where
  "body_fails_page = (quiet_page ''markup'')\<lparr>pp_body_text := Inl ''Timeout 30000ms exceeded''\<rparr>"

definition heading_fails_page :: product_page where
  "heading_fails_page = (quiet_page ''markup'')\<lparr>pp_h1 := Inl ''Timeout 30000ms exceeded''\<rparr>"

definition goto_fails_page :: product_page where
  "goto_fails_page = (quiet_page ''markup'')\<lparr>pp_goto := Inl ''net::ERR_CONNECTION_RESET''\<rparr>"

definition instamart_stocked_page :: product_page where
  \<comment> \<open>a product page whose linked data says in stock, and whose body text cannot be read\<close>
  "instamart_stocked_page =
     (quiet_page ''markup'')
       \<lparr>pp_body_text := Inl ''Timeout 30000ms exceeded'',
        pp_ld_scripts :=
          Inr [Some (JObj [(''@type'', JStr ''Product''), (''name'', JStr ''Milk''),
                           (''offers'', JObj [(''price'', JInt 29),
                                              (''availability'', JStr ''https://schema.org/InStock'')])])]\<rparr>"

definition failed_loc_page :: zepto_loc_page where
  "failed_loc_page =
     \<lparr>zl_goto = Inr (), zl_click_select = Inl ''Timeout 10000ms exceeded'',
      zl_click_header = Inl ''Timeout 5000ms exceeded'', zl_wait_modal = Inr (), zl_wait_input = Inr (),
      zl_click_input = Inr (), zl_clear1 = Inr (), zl_clear2 = Inr (), zl_type_pincode = Inr (),
      zl_eta_visible = Inr (), zl_eta_text = Inr ''8 mins'', zl_header_text = Inr None\<rparr>"

definition no_eta_loc_page :: zepto_loc_page where
  "no_eta_loc_page =
     \<lparr>zl_goto = Inr (), zl_click_select = Inr (), zl_click_header = Inr (), zl_wait_modal = Inr (),
      zl_wait_input = Inr (), zl_click_input = Inr (), zl_clear1 = Inr (), zl_clear2 = Inr (),
      zl_type_pincode = Inr (), zl_eta_visible = Inr (), zl_eta_text = Inr ''Delivery soon'',
      zl_header_text = Inr None\<rparr>"

definition no_eta_blinkit_page :: blinkit_loc_page where
  "no_eta_blinkit_page = \<lparr>bl_goto = Inr (), bl_wait_modal = Inr (), bl_eta_title = Inr (Some ''Delivery soon'')\<rparr>"

definition scenario_object :: json where
  "scenario_object = JObj [(''product_id'', JStr ''123''), (''price'', JInt 100), (''mrp'', JInt 120),
     (''inventory'', JInt 0)]"

definition scenario_url :: string where
  "scenario_url = ''https://platform/x/prid/123''"

definition scenario_markup :: string where
  "scenario_markup = ''<script>'' @ [CHR 0x7B] @ ''product_id:123,price:100,mrp:120,inventory:0'' @ [CHR 0x7D] @ ''</script>''"

definition quiet_listing :: "string \<Rightarrow> listing_page" where
  "quiet_listing url =
     \<lparr>lp_now = ''2024-01-01 00:00:00'', lp_first_content = Inr ''markup'', lp_url = url,
      lp_nav_click = Inr (), lp_nav_wait = Inr (), lp_goto = Inr (), lp_wait = Inr (),
      lp_content = Inr ''markup'', lp_screenshot = Inr (), lp_delivery_eta = ''12 mins'',
      lp_ld_scripts = Inr []\<rparr>"

definition zepto_listing_url :: string where
  "zepto_listing_url = ''https://www.zepto.com/cn/dairy-bread/milk/cid/1/scid/2''"

definition blinkit_listing_url :: string where
  "blinkit_listing_url = ''https://blinkit.com/cn/dairy-bread/milk/cid/14/922''"

definition sample_uuid :: string where
  "sample_uuid = ''0a1b2c3d-0000-4000-8000-00000000abcd''"





definition zero_inventory_record :: json where
  \<comment> \<open>a Zepto record with an inventory of 0 and no sold-out flag\<close>
  "zero_inventory_record =
     JObj [(''id'', JStr sample_uuid), (''name'', JStr ''Milk''), (''sellingPrice'', JInt 19900),
           (''inventory'', JInt 0)]"

definition stock_signal_records :: "json option list" where
  \<comment> \<open>Blinkit records: one with an inventory of 0, one flagged unavailable, one with neither\<close>
  "stock_signal_records =
     [Some (JObj [(''product_id'', JInt 1), (''product_name'', JStr ''Milk''), (''inventory'', JInt 0)]),
      Some (JObj [(''product_id'', JInt 2), (''product_name'', JStr ''Curd''), (''unavailable_quantity'', JInt 1)]),
      Some (JObj [(''product_id'', JInt 3), (''product_name'', JStr ''Ghee''), (''inventory'', JInt 7)])]"

definition sold_out_records :: "json option list" where
  "sold_out_records =
     [Some (JObj [(''id'', JStr sample_uuid), (''name'', JStr ''Milk''), (''isSoldOut'', JBool True)]),
      Some (JObj [(''id'', JStr sample_uuid), (''name'', JStr ''Curd'')])]"

definition bare_record :: json where
  "bare_record = JObj [(''product_id'', JStr ''1'')]"

definition full_record :: json where
  "full_record = JObj [(''product_id'', JStr ''1''), (''price'', JInt 10), (''mrp'', JInt 12), (''brand'', JStr ''X'')]"

definition zepto_without_mrp :: json where
  "zepto_without_mrp = JObj [(''id'', JStr sample_uuid), (''name'', JStr ''Milk '')]"

definition zepto_with_mrp :: json where
  "zepto_with_mrp = JObj [(''id'', JStr sample_uuid), (''name'', JStr ''Milk''), (''mrp'', JInt 3200)]"

definition priced_record :: json where
  \<comment> \<open>a Zepto record whose selling price is 19900 minor units\<close>
  "priced_record = JObj [(''id'', JStr sample_uuid), (''name'', JStr ''Ghee''), (''sellingPrice'', JInt 19900),
     (''mrp'', JInt 21000)]"

definition priced_context :: scan_context where
  "priced_context = make_context (url_categories zepto_listing_url) ''8 mins'' ''2024-01-01 00:00:00'' ''560001''"

definition priced_url :: string where
  "priced_url = ''https://www.zepto.com/pn/ghee/pvid/'' @ sample_uuid"

section \<open>Properties of the input reader\<close>

lemma map_of_group_row:
  "map_of (group_row p u g) k =
     (if k = p then Some ((case map_of g p of None \<Rightarrow> [] | Some us \<Rightarrow> us) @ (if url_kept u then [u] else []))
      else map_of g k)"
  by (auto simp: group_row_def Let_def AList.update_conv' split: option.splits)

lemma group_rows_dom_mono:
  "group_rows cols pc uc rs g = Inr g' \<Longrightarrow> map_of g k \<noteq> None \<Longrightarrow> map_of g' k \<noteq> None"
proof (induction rs arbitrary: g)
  case Nil then show ?case by simp
next
  case (Cons r rs)
  from Cons.prems(1) obtain pcell ucell where
    g': "group_rows cols pc uc rs (group_row (norm_pincode pcell) (py_strip ucell) g) = Inr g'"
    by (auto split: sum.splits)
  have "map_of (group_row (norm_pincode pcell) (py_strip ucell) g) k \<noteq> None"
    using Cons.prems(2) by (simp add: map_of_group_row)
  with Cons.IH [OF g'] show ?case .
qed

lemma group_rows_has_key:
  "group_rows cols pc uc rs g = Inr g' \<Longrightarrow> row \<in> set rs \<Longrightarrow> row_get cols row pc = Inr pcell \<Longrightarrow>
   map_of g' (norm_pincode pcell) \<noteq> None"
proof (induction rs arbitrary: g)
  case Nil then show ?case by simp
next
  case (Cons r rs)
  from Cons.prems(1) obtain pc0 uc0 where
    r: "row_get cols r pc = Inr pc0" "row_get cols r uc = Inr uc0" and
    g': "group_rows cols pc uc rs (group_row (norm_pincode pc0) (py_strip uc0) g) = Inr g'"
    by (auto split: sum.splits)
  show ?case
  proof (cases "row = r")
    case True
    with r Cons.prems(3) have "pc0 = pcell" by simp
    then have "map_of (group_row (norm_pincode pc0) (py_strip uc0) g) (norm_pincode pcell) \<noteq> None"
      by (simp add: map_of_group_row)
    with group_rows_dom_mono [OF g'] show ?thesis .
  next
    case False
    with Cons.prems(2) have "row \<in> set rs" by simp
    from Cons.IH [OF g' this Cons.prems(3)] show ?thesis .
  qed
qed

lemma group_rows_no_url:
  "group_rows cols pc uc rs g = Inr g' \<Longrightarrow>
   (\<forall>row\<in>set rs. \<forall>pcell ucell. row_get cols row pc = Inr pcell \<and> norm_pincode pcell = k \<and>
        row_get cols row uc = Inr ucell \<longrightarrow> \<not> url_kept (py_strip ucell)) \<Longrightarrow>
   map_of g k = None \<or> map_of g k = Some [] \<Longrightarrow>
   map_of g' k = None \<or> map_of g' k = Some []"
proof (induction rs arbitrary: g)
  case Nil then show ?case by simp
next
  case (Cons r rs)
  from Cons.prems(1) obtain pc0 uc0 where
    r: "row_get cols r pc = Inr pc0" "row_get cols r uc = Inr uc0" and
    g': "group_rows cols pc uc rs (group_row (norm_pincode pc0) (py_strip uc0) g) = Inr g'"
    by (auto split: sum.splits)
  have step: "map_of (group_row (norm_pincode pc0) (py_strip uc0) g) k = None \<or>
        map_of (group_row (norm_pincode pc0) (py_strip uc0) g) k = Some []"
  proof (cases "k = norm_pincode pc0")
    case True
    with Cons.prems(2) r have "\<not> url_kept (py_strip uc0)" by simp
    with True Cons.prems(3) show ?thesis
      by (cases "map_of g k") (simp_all add: map_of_group_row)
  next
    case False
    with Cons.prems(3) show ?thesis by (simp add: map_of_group_row)
  qed
  have rest: "\<forall>row\<in>set rs. \<forall>pcell ucell. row_get cols row pc = Inr pcell \<and> norm_pincode pcell = k \<and>
        row_get cols row uc = Inr ucell \<longrightarrow> \<not> url_kept (py_strip ucell)"
  proof (intro ballI allI impI)
    fix row pcell ucell
    assume "row \<in> set rs" and h: "row_get cols row pc = Inr pcell \<and> norm_pincode pcell = k \<and>
        row_get cols row uc = Inr ucell"
    then have "row \<in> set (r # rs)" by simp
    with Cons.prems(2) h show "\<not> url_kept (py_strip ucell)" by blast
  qed
  from Cons.IH [OF g' rest step] show ?case .
qed

lemma row_get_total:
  "length row = length cols \<Longrightarrow> c \<in> set cols \<Longrightarrow> \<exists>v. row_get cols row c = Inr v"
  using map_of_zip_is_Some [of cols row c] by (auto simp: row_get_def)

lemma group_rows_total:
  "\<forall>row\<in>set rs. length row = length cols \<Longrightarrow> pc \<in> set cols \<Longrightarrow> uc \<in> set cols \<Longrightarrow>
   \<exists>g'. group_rows cols pc uc rs g = Inr g'"
proof (induction rs arbitrary: g)
  case Nil then show ?case by simp
next
  case (Cons r rs)
  then obtain a b where "row_get cols r pc = Inr a" "row_get cols r uc = Inr b"
    using row_get_total [of r cols pc] row_get_total [of r cols uc] by auto
  with Cons show ?case by auto
qed

lemma find_in_set: "List.find P xs = Some x \<Longrightarrow> x \<in> set xs"
  by (auto simp: find_Some_iff)

text \<open>
  C10: when the table has a pincode column and a URL column, every row's normalised pincode
  is a key of the grouping \<open>read_input_excel\<close> returns, whether or not the row's URL
  cell is kept; and a pincode none of whose rows has a kept URL (each is blank or
  \<open>nan\<close>) maps to the empty list.
\<close>

theorem read_input_excel_keeps_every_pincode:
  assumes pc: "pincode_col df = Some pc" and uc: "url_col df = Some uc"
    and wf: "\<forall>row\<in>set (df_rows df). length row = length (df_columns df)"
    and labels: "distinct (norm_columns df)"
  shows "(\<forall>row\<in>set (df_rows df). \<exists>pcell. row_get (norm_columns df) row pc = Inr pcell \<and>
             map_of (read_input_excel (Inr df)) (norm_pincode pcell) \<noteq> None) \<and>
         (\<forall>k. map_of (read_input_excel (Inr df)) k \<noteq> None \<and>
            (\<forall>row\<in>set (df_rows df). \<forall>pcell ucell.
               row_get (norm_columns df) row pc = Inr pcell \<and> norm_pincode pcell = k \<and>
               row_get (norm_columns df) row uc = Inr ucell \<longrightarrow> \<not> url_kept (py_strip ucell))
            \<longrightarrow> map_of (read_input_excel (Inr df)) k = Some [])"
proof -
  let ?cols = "norm_columns df"
  have pcin: "pc \<in> set ?cols" and ucin: "uc \<in> set ?cols"
    using pc uc by (auto simp: pincode_col_def url_col_def dest: find_in_set)
  have len: "\<forall>row\<in>set (df_rows df). length row = length ?cols"
    using wf by (simp add: norm_columns_def)
  from group_rows_total [OF len pcin ucin] obtain g where
    g: "group_rows ?cols pc uc (df_rows df) [] = Inr g" by blast
  have res: "read_input_excel (Inr df) = g"
    using pc uc g by (simp add: read_input_excel_def)
  have a: "\<exists>pcell. row_get ?cols row pc = Inr pcell \<and> map_of g (norm_pincode pcell) \<noteq> None"
    if "row \<in> set (df_rows df)" for row
  proof -
    from that len have "length row = length ?cols" by blast
    from row_get_total [OF this pcin] obtain pcell where c: "row_get ?cols row pc = Inr pcell" by blast
    from group_rows_has_key [OF g that c] c show ?thesis by blast
  qed
  have b: "map_of g k = Some []"
    if "map_of g k \<noteq> None" and "\<forall>row\<in>set (df_rows df). \<forall>pcell ucell.
               row_get ?cols row pc = Inr pcell \<and> norm_pincode pcell = k \<and>
               row_get ?cols row uc = Inr ucell \<longrightarrow> \<not> url_kept (py_strip ucell)" for k
    using group_rows_no_url [OF g that(2)] that(1) by simp
  show ?thesis unfolding res using a b by blast
qed

lemmas reader_defs = read_input_excel_def pincode_col_def url_col_def norm_columns_def
  py_lower_def py_strip_def lower_char_def py_isspace_def row_get_def norm_pincode_def
  split_first_def group_row_def url_kept_def

lemma sample_df_read:
  "read_input_excel (Inr sample_df) = [(''560001'', []), (''110001'', [''http://a''])]"
  by (simp add: sample_df_def reader_defs)

theorem read_input_excel_keeps_every_pincode_witness:
  "pincode_col sample_df = Some ''pincode'' \<and> url_col sample_df = Some ''product_url'' \<and>
   list_all (\<lambda>row. length row = length (df_columns sample_df)) (df_rows sample_df) \<and>
   distinct (norm_columns sample_df) \<and>
   map_of (read_input_excel (Inr sample_df)) ''560001'' = Some [] \<and>
   map_of (read_input_excel (Inr sample_df)) ''110001'' \<noteq> None"
proof -
  have cols: "norm_columns sample_df = [''pincode'', ''product_url'']"
    by (simp add: sample_df_def reader_defs)
  have rows: "df_rows sample_df = [[''560001.0'', ''nan''], [''560001.0'', '' ''], [''110001'', '' http://a '']]"
    by (simp add: sample_df_def)
  have pc: "pincode_col sample_df = Some ''pincode''"
    and uc: "url_col sample_df = Some ''product_url''"
    unfolding pincode_col_def url_col_def cols by simp_all
  have d: "distinct (norm_columns sample_df)"
    unfolding cols by simp
  have wf: "\<forall>row\<in>set (df_rows sample_df). length row = length (df_columns sample_df)"
    by (simp add: sample_df_def)
  note T = read_input_excel_keeps_every_pincode [OF pc uc wf d]
  have k1: "map_of (read_input_excel (Inr sample_df)) ''560001'' \<noteq> None"
    and k3: "map_of (read_input_excel (Inr sample_df)) ''110001'' \<noteq> None"
    by (simp_all add: sample_df_read)
  have nourl: "\<forall>row\<in>set (df_rows sample_df). \<forall>pcell ucell.
      row_get (norm_columns sample_df) row ''pincode'' = Inr pcell \<and> norm_pincode pcell = ''560001'' \<and>
      row_get (norm_columns sample_df) row ''product_url'' = Inr ucell \<longrightarrow> \<not> url_kept (py_strip ucell)"
    unfolding cols rows
    by (simp add: row_get_def norm_pincode_def split_first_def url_kept_def py_strip_def py_isspace_def py_lower_def lower_char_def)
  from T k1 nourl have "map_of (read_input_excel (Inr sample_df)) ''560001'' = Some []"
    by blast
  with pc uc d wf k3 show ?thesis by (simp add: list_all_iff)
qed

section \<open>Properties of the availability probes\<close>

subsection \<open>The error field\<close>

lemma zepto_fill_error: "res_error (snd (zepto_fill L j r)) = res_error r"
  by (simp add: zepto_fill_def Let_def split: sum.split option.split)

lemma zepto_json_block_error: "res_error (snd (zepto_json_block L url content r)) = res_error r"
  by (simp add: zepto_json_block_def zepto_fill_error split: option.split)

lemma zepto_dom_block_error: "res_error (snd (zepto_dom_block L page r)) = res_error r"
  by (simp add: zepto_dom_block_def Let_def split: sum.split option.split)

lemma zepto_dom_block_raise:
  "fst (zepto_dom_block L page r) = (case pp_body_text page of Inl e \<Rightarrow> Some e | Inr b \<Rightarrow> None)"
  by (simp add: zepto_dom_block_def Let_def split: sum.split)

lemma first_failure2:
  "first_failure [a, b] = (case a of Inl e \<Rightarrow> Some e | Inr u \<Rightarrow> (case b of Inl e \<Rightarrow> Some e | Inr u \<Rightarrow> None))"
  by (cases a; cases b) simp_all

lemma zepto_steps_raise:
  "fst (zepto_probe_steps L page url r) =
     (case first_failure [pp_goto page, pp_wait page] of
        Some e \<Rightarrow> Some e
      | None \<Rightarrow> (case pp_content page of
                   Inl e \<Rightarrow> Some e
                 | Inr c \<Rightarrow> if py_in not_found_marker c then None
                            else (case pp_body_text page of Inl e \<Rightarrow> Some e | Inr b \<Rightarrow> None)))"
  by (simp add: zepto_probe_steps_def zepto_dom_block_raise split: option.split sum.split)

lemma zepto_steps_error:
  "res_error (snd (zepto_probe_steps L page url r)) =
     (if first_failure [pp_goto page, pp_wait page] = None \<and>
         (case pp_content page of Inl e \<Rightarrow> False | Inr c \<Rightarrow> py_in not_found_marker c)
      then Some ''404 Not Found'' else res_error r)"
  by (simp add: zepto_probe_steps_def zepto_dom_block_error zepto_json_block_error
      split: option.split sum.split)

lemma zepto_steps_not_found:
  "first_failure [pp_goto page, pp_wait page] = None \<Longrightarrow> pp_content page = Inr c \<Longrightarrow>
   py_in not_found_marker c \<Longrightarrow>
   zepto_probe_steps L page url r = (None, r\<lparr>res_availability := ''Not Found'', res_error := Some ''404 Not Found''\<rparr>)"
  by (simp add: zepto_probe_steps_def)

lemma zepto_result:
  "zepto_scrape_availability L page url =
     Inr (let st = zepto_probe_steps L page url (initial_result ''zepto'' url (pp_now page) (Some 1))
          in case fst st of None \<Rightarrow> snd st
             | Some e \<Rightarrow> (snd st)\<lparr>res_error := Some e, res_availability := ''Error''\<rparr>)"
  by (simp add: zepto_scrape_availability_def Let_def split: prod.split option.split)

lemma initial_error: "res_error (initial_result pf url now v) = None"
  by (simp add: initial_result_def)

lemma zepto_error_marks_availability:
  assumes "zepto_scrape_availability L page url = Inr r" and "res_error r \<noteq> None"
  shows "res_availability r = ''Not Found'' \<or> res_availability r = ''Error''"
proof -
  let ?r0 = "initial_result ''zepto'' url (pp_now page) (Some 1)"
  let ?st = "zepto_probe_steps L page url ?r0"
  show ?thesis
  proof (cases "fst ?st")
    case (Some e)
    with assms(1) show ?thesis by (auto simp: zepto_result Let_def)
  next
    case None
    with assms(1) have r: "r = snd ?st" by (auto simp: zepto_result Let_def)
    with assms(2) have "res_error (snd ?st) \<noteq> None" by simp
    then have nf: "first_failure [pp_goto page, pp_wait page] = None \<and>
         (case pp_content page of Inl e \<Rightarrow> False | Inr c \<Rightarrow> py_in not_found_marker c)"
      by (simp add: zepto_steps_error initial_error split: if_splits)
    then obtain c where "pp_content page = Inr c" "py_in not_found_marker c"
      by (cases "pp_content page") auto
    with nf zepto_steps_not_found [of page c L url ?r0] r show ?thesis by simp
  qed
qed

text \<open>
  Zepto's probe keeps the invariant of C1: a result with an error has availability
  \<open>Not Found\<close> or \<open>Error\<close>. The lemma above proves it for every page.
\<close>

text \<open>
  C1 (the claim: a result whose error is set never has a confident availability). Blinkit's
  probe breaks it: its handler records the exception and leaves the availability the JSON
  step stored. Here the page's JSON says five in stock and reading the body text then times
  out; the result carries the error and \<open>In Stock\<close>.
\<close>

theorem blinkit_reports_in_stock_with_error:
  "map_sum id (\<lambda>r. (res_error r, res_availability r))
     (blinkit_scrape_availability (stub_lib [Some stocked_object]) body_fails_page
        ''https://blinkit.com/prn/milk/prid/123'')
   = Inr (Some ''Timeout 30000ms exceeded'', ''In Stock'')"
  by code_simp

text \<open>Instamart's handler is the same: the linked data says in stock, the body text times out.\<close>

lemma instamart_reports_in_stock_with_error:
  "map_sum id (\<lambda>r. (res_error r, res_availability r))
     (instamart_scrape_availability (stub_lib []) instamart_stocked_page ''https://www.swiggy.com/instamart/item/1'')
   = Inr (Some ''Timeout 30000ms exceeded'', ''In Stock'')"
  by code_simp

subsection \<open>The probes return\<close>

lemma instamart_result:
  "instamart_scrape_availability L page url =
     Inr (let st = instamart_probe_steps L page (initial_result ''instamart'' url (pp_now page) (Some 1))
          in case fst st of None \<Rightarrow> snd st
             | Some e \<Rightarrow> (snd st)\<lparr>res_error := Some e\<rparr>)"
  by (simp add: instamart_scrape_availability_def Let_def split: prod.split option.split)

lemma instamart_offers_error: "res_error (snd (instamart_offers L offers r)) = res_error r"
  by (simp add: instamart_offers_def split: sum.split)

lemma instamart_script_error: "res_error (snd (instamart_script L data r)) = res_error r"
proof (cases "instamart_product_data data")
  case (Inl e)
  then show ?thesis by (simp add: instamart_script_def)
next
  case (Inr opd)
  show ?thesis
  proof (cases opd)
    case None
    with Inr show ?thesis by (simp add: instamart_script_def)
  next
    case (Some pd)
    obtain x r1 where o: "instamart_offers L (jget_default pd ''offers'' (JObj []))
        (r\<lparr>res_name := jget_default pd ''name'' (JStr ''N/A'')\<rparr>) = (x, r1)"
      by (cases "instamart_offers L (jget_default pd ''offers'' (JObj []))
        (r\<lparr>res_name := jget_default pd ''name'' (JStr ''N/A'')\<rparr>)")
    have "res_error r1 = res_error r"
      using instamart_offers_error [of L "jget_default pd ''offers'' (JObj [])"
          "r\<lparr>res_name := jget_default pd ''name'' (JStr ''N/A'')\<rparr>"] o by simp
    with Inr Some o show ?thesis
      by (cases x) (simp_all add: instamart_script_def Let_def split: json.split)
  qed
qed

lemma instamart_scripts_error: "res_error (instamart_scripts L ds r) = res_error r"
proof (induction ds arbitrary: r)
  case Nil then show ?case by simp
next
  case (Cons d ds)
  show ?case
  proof (cases d)
    case None with Cons show ?thesis by simp
  next
    case (Some data)
    obtain b r1 where s: "instamart_script L data r = (b, r1)" by (cases "instamart_script L data r")
    then have "res_error r1 = res_error r" using instamart_script_error [of L data r] by simp
    with Some s Cons show ?thesis by (cases b) simp_all
  qed
qed

lemma instamart_steps_raise:
  "fst (instamart_probe_steps L page r) =
     (case first_failure [pp_goto page, pp_wait page] of
        Some e \<Rightarrow> Some e
      | None \<Rightarrow> (case pp_body_text page of Inl e \<Rightarrow> Some e | Inr b \<Rightarrow> None))"
  by (simp add: instamart_probe_steps_def Let_def split: option.split sum.split)

lemma instamart_steps_error: "res_error (snd (instamart_probe_steps L page r)) = res_error r"
  by (simp add: instamart_probe_steps_def Let_def instamart_scripts_error split: option.split sum.split)

text \<open>
  C2, amended: Zepto's and Instamart's \<open>scrape_availability\<close> return a result for every
  page and every URL and never raise. An exception of a call outside the step-local
  handlers (the navigation, the wait after it, reading the markup, reading the body text)
  is stored in the result's error field; when none of these raises and the page is not
  the not-found page, the error field stays empty, whatever failed inside the locally
  handled steps.
\<close>

theorem scrape_availability_returns:
  "(\<exists>r. zepto_scrape_availability L page url = Inr r \<and>
        (\<forall>e. first_failure [pp_goto page, pp_wait page] = Some e \<longrightarrow> res_error r = Some e) \<and>
        (\<forall>e. first_failure [pp_goto page, pp_wait page] = None \<and> pp_content page = Inl e
              \<longrightarrow> res_error r = Some e) \<and>
        (\<forall>e c. first_failure [pp_goto page, pp_wait page] = None \<and> pp_content page = Inr c \<and>
                \<not> py_in not_found_marker c \<and> pp_body_text page = Inl e \<longrightarrow> res_error r = Some e) \<and>
        (\<forall>c b. first_failure [pp_goto page, pp_wait page] = None \<and> pp_content page = Inr c \<and>
                \<not> py_in not_found_marker c \<and> pp_body_text page = Inr b \<longrightarrow> res_error r = None)) \<and>
   (\<exists>r. instamart_scrape_availability L page url = Inr r \<and>
        (\<forall>e. first_failure [pp_goto page, pp_wait page] = Some e \<longrightarrow> res_error r = Some e) \<and>
        (\<forall>e. first_failure [pp_goto page, pp_wait page] = None \<and> pp_body_text page = Inl e
              \<longrightarrow> res_error r = Some e) \<and>
        (\<forall>b. first_failure [pp_goto page, pp_wait page] = None \<and> pp_body_text page = Inr b
              \<longrightarrow> res_error r = None))"
proof (intro conjI)
  let ?st = "zepto_probe_steps L page url (initial_result ''zepto'' url (pp_now page) (Some 1))"
  let ?r = "case fst ?st of None \<Rightarrow> snd ?st
             | Some e \<Rightarrow> (snd ?st)\<lparr>res_error := Some e, res_availability := ''Error''\<rparr>"
  have eq: "zepto_scrape_availability L page url = Inr ?r"
    by (simp add: zepto_result Let_def)
  have err: "res_error ?r = (case fst ?st of None \<Rightarrow> res_error (snd ?st) | Some e \<Rightarrow> Some e)"
    by (simp split: option.split)
  show "\<exists>r. zepto_scrape_availability L page url = Inr r \<and>
        (\<forall>e. first_failure [pp_goto page, pp_wait page] = Some e \<longrightarrow> res_error r = Some e) \<and>
        (\<forall>e. first_failure [pp_goto page, pp_wait page] = None \<and> pp_content page = Inl e
              \<longrightarrow> res_error r = Some e) \<and>
        (\<forall>e c. first_failure [pp_goto page, pp_wait page] = None \<and> pp_content page = Inr c \<and>
                \<not> py_in not_found_marker c \<and> pp_body_text page = Inl e \<longrightarrow> res_error r = Some e) \<and>
        (\<forall>c b. first_failure [pp_goto page, pp_wait page] = None \<and> pp_content page = Inr c \<and>
                \<not> py_in not_found_marker c \<and> pp_body_text page = Inr b \<longrightarrow> res_error r = None)"
  proof (intro exI [of _ ?r] conjI allI impI)
    show "zepto_scrape_availability L page url = Inr ?r" by (rule eq)
  next
    fix e assume "first_failure [pp_goto page, pp_wait page] = Some e"
    then show "res_error ?r = Some e" unfolding err by (simp add: zepto_steps_raise)
  next
    fix e assume "first_failure [pp_goto page, pp_wait page] = None \<and> pp_content page = Inl e"
    then show "res_error ?r = Some e" unfolding err by (simp add: zepto_steps_raise)
  next
    fix e c assume "first_failure [pp_goto page, pp_wait page] = None \<and> pp_content page = Inr c \<and>
                \<not> py_in not_found_marker c \<and> pp_body_text page = Inl e"
    then show "res_error ?r = Some e" unfolding err by (simp add: zepto_steps_raise)
  next
    fix c b assume "first_failure [pp_goto page, pp_wait page] = None \<and> pp_content page = Inr c \<and>
                \<not> py_in not_found_marker c \<and> pp_body_text page = Inr b"
    then show "res_error ?r = None" unfolding err
      by (simp add: zepto_steps_raise zepto_steps_error initial_error)
  qed
next
  let ?st = "instamart_probe_steps L page (initial_result ''instamart'' url (pp_now page) (Some 1))"
  let ?r = "case fst ?st of None \<Rightarrow> snd ?st | Some e \<Rightarrow> (snd ?st)\<lparr>res_error := Some e\<rparr>"
  have eq: "instamart_scrape_availability L page url = Inr ?r"
    by (simp add: instamart_result Let_def)
  have err: "res_error ?r = (case fst ?st of None \<Rightarrow> res_error (snd ?st) | Some e \<Rightarrow> Some e)"
    by (simp split: option.split)
  show "\<exists>r. instamart_scrape_availability L page url = Inr r \<and>
        (\<forall>e. first_failure [pp_goto page, pp_wait page] = Some e \<longrightarrow> res_error r = Some e) \<and>
        (\<forall>e. first_failure [pp_goto page, pp_wait page] = None \<and> pp_body_text page = Inl e
              \<longrightarrow> res_error r = Some e) \<and>
        (\<forall>b. first_failure [pp_goto page, pp_wait page] = None \<and> pp_body_text page = Inr b
              \<longrightarrow> res_error r = None)"
  proof (intro exI [of _ ?r] conjI allI impI)
    show "instamart_scrape_availability L page url = Inr ?r" by (rule eq)
  next
    fix e assume "first_failure [pp_goto page, pp_wait page] = Some e"
    then show "res_error ?r = Some e" unfolding err by (simp add: instamart_steps_raise)
  next
    fix e assume "first_failure [pp_goto page, pp_wait page] = None \<and> pp_body_text page = Inl e"
    then show "res_error ?r = Some e" unfolding err by (simp add: instamart_steps_raise)
  next
    fix b assume "first_failure [pp_goto page, pp_wait page] = None \<and> pp_body_text page = Inr b"
    then show "res_error ?r = None" unfolding err
      by (simp add: instamart_steps_raise instamart_steps_error initial_error)
  qed
qed

text \<open>The amended C2 at a page whose navigation raises.\<close>

theorem scrape_availability_returns_witness:
  "first_failure [pp_goto goto_fails_page, pp_wait goto_fails_page] = Some ''net::ERR_CONNECTION_RESET'' \<and>
   map_sum id res_error (zepto_scrape_availability (stub_lib []) goto_fails_page ''https://www.zepto.com/pn/x'')
     = Inr (Some ''net::ERR_CONNECTION_RESET'') \<and>
   map_sum id res_error (instamart_scrape_availability (stub_lib []) goto_fails_page ''https://www.swiggy.com/x'')
     = Inr (Some ''net::ERR_CONNECTION_RESET'')"
proof -
  have ff: "first_failure [pp_goto goto_fails_page, pp_wait goto_fails_page] = Some ''net::ERR_CONNECTION_RESET''"
    by (simp add: goto_fails_page_def quiet_page_def)
  from scrape_availability_returns [of "stub_lib []" goto_fails_page "''https://www.zepto.com/pn/x''"] ff
  have z: "map_sum id res_error (zepto_scrape_availability (stub_lib []) goto_fails_page ''https://www.zepto.com/pn/x'')
     = Inr (Some ''net::ERR_CONNECTION_RESET'')" by auto
  from scrape_availability_returns [of "stub_lib []" goto_fails_page "''https://www.swiggy.com/x''"] ff
  have i: "map_sum id res_error (instamart_scrape_availability (stub_lib []) goto_fails_page ''https://www.swiggy.com/x'')
     = Inr (Some ''net::ERR_CONNECTION_RESET'')" by auto
  from ff z i show ?thesis by simp
qed

text \<open>
  C2 as stated fails: the heading lookup raises, the exception is swallowed where it
  occurs, and the result has no error.
\<close>

theorem heading_failure_not_captured:
  "pp_h1 heading_fails_page = Inl ''Timeout 30000ms exceeded'' \<and>
   map_sum id (\<lambda>r. (res_name r, res_error r))
     (zepto_scrape_availability (stub_lib []) heading_fails_page ''https://www.zepto.com/pn/x'')
   = Inr (JStr ''N/A'', None)"
  by code_simp

section \<open>Properties of the location setters\<close>

lemma zepto_set_location_returns:
  "zepto_set_location page pincode s = Inr (snd (zepto_location_steps page s))"
  by (simp add: zepto_set_location_def split: prod.split option.split)

lemma blinkit_set_location_returns:
  "blinkit_set_location page pincode s = Inr (snd (blinkit_location_steps page s))"
  by (simp add: blinkit_set_location_def split: prod.split option.split)

text \<open>
  C8: when the ETA pattern finds no match in the text the ETA step scanned, \<open>set_location\<close>
  returns with the session's delivery ETA as it was (Zepto: the text of the delivery-time
  element, else of the header, else \<open>N/A\<close>; Blinkit: the text of the location bar's title).
\<close>

theorem eta_kept_without_match:
  "(search_from mins_at (zepto_eta_text zpage) = None \<longrightarrow>
      (\<exists>s'. zepto_set_location zpage pincode s = Inr s' \<and> delivery_eta s' = delivery_eta s)) \<and>
   (\<forall>t. bl_eta_title bpage = Inr (Some t) \<and> search_from minutes_or_mins_at t = None \<longrightarrow>
      (\<exists>s'. blinkit_set_location bpage pincode s = Inr s' \<and> delivery_eta s' = delivery_eta s))"
proof (intro conjI allI impI)
  assume "search_from mins_at (zepto_eta_text zpage) = None"
  then have "delivery_eta (snd (zepto_location_steps zpage s)) = delivery_eta s"
    by (simp add: zepto_location_steps_def zepto_extract_eta_def split: option.split)
  then show "\<exists>s'. zepto_set_location zpage pincode s = Inr s' \<and> delivery_eta s' = delivery_eta s"
    by (simp add: zepto_set_location_returns)
next
  fix t
  assume "bl_eta_title bpage = Inr (Some t) \<and> search_from minutes_or_mins_at t = None"
  then have "delivery_eta (snd (blinkit_location_steps bpage s)) = delivery_eta s"
    by (simp add: blinkit_location_steps_def blinkit_extract_eta_def split: option.split)
  then show "\<exists>s'. blinkit_set_location bpage pincode s = Inr s' \<and> delivery_eta s' = delivery_eta s"
    by (simp add: blinkit_set_location_returns)
qed

lemma no_match_zepto: "search_from mins_at (zepto_eta_text no_eta_loc_page) = None"
  by code_simp

lemma no_match_blinkit: "search_from minutes_or_mins_at ''Delivery soon'' = None"
  by code_simp

text \<open>C8 at pages whose ETA text is "Delivery soon", with a session that holds "9 mins".\<close>

theorem eta_kept_without_match_witness:
  "search_from mins_at (zepto_eta_text no_eta_loc_page) = None \<and>
   map_sum id delivery_eta (zepto_set_location no_eta_loc_page ''560001'' \<lparr>delivery_eta = ''9 mins''\<rparr>)
     = Inr ''9 mins'' \<and>
   bl_eta_title no_eta_blinkit_page = Inr (Some ''Delivery soon'') \<and>
   search_from minutes_or_mins_at ''Delivery soon'' = None \<and>
   map_sum id delivery_eta (blinkit_set_location no_eta_blinkit_page ''560001'' \<lparr>delivery_eta = ''9 mins''\<rparr>)
     = Inr ''9 mins''"
proof -
  have t: "bl_eta_title no_eta_blinkit_page = Inr (Some ''Delivery soon'')"
    by (simp add: no_eta_blinkit_page_def)
  from eta_kept_without_match [of no_eta_loc_page "''560001''" "\<lparr>delivery_eta = ''9 mins''\<rparr>" no_eta_blinkit_page]
    no_match_zepto no_match_blinkit t
  have "(\<exists>s'. zepto_set_location no_eta_loc_page ''560001'' \<lparr>delivery_eta = ''9 mins''\<rparr> = Inr s' \<and>
            delivery_eta s' = ''9 mins'') \<and>
        (\<exists>s'. blinkit_set_location no_eta_blinkit_page ''560001'' \<lparr>delivery_eta = ''9 mins''\<rparr> = Inr s' \<and>
            delivery_eta s' = ''9 mins'')"
    by simp
  with no_match_zepto no_match_blinkit t show ?thesis by auto
qed

section \<open>Properties of the run orchestrator\<close>

lemma zepto_fill_url: "res_url (snd (zepto_fill L j r)) = res_url r"
  by (simp add: zepto_fill_def Let_def split: sum.split option.split)

lemma zepto_json_block_url: "res_url (snd (zepto_json_block L url content r)) = res_url r"
  by (simp add: zepto_json_block_def zepto_fill_url split: option.split)

lemma zepto_dom_block_url: "res_url (snd (zepto_dom_block L page r)) = res_url r"
  by (simp add: zepto_dom_block_def Let_def split: sum.split option.split)

lemma zepto_steps_url: "res_url (snd (zepto_probe_steps L page url r)) = res_url r"
  by (simp add: zepto_probe_steps_def zepto_dom_block_url zepto_json_block_url
      split: option.split sum.split)

lemma zepto_result_url:
  "\<exists>r. zepto_scrape_availability L page url = Inr r \<and> res_url r = url"
  by (simp add: zepto_result Let_def zepto_steps_url initial_result_def split: option.split)

lemma probe_targets_zepto:
  "map (\<lambda>r. (res_input_pincode r, res_url r)) (probe_targets (zepto_scrape_availability L) pincode targets)
     = map (\<lambda>t. (pincode, fst t)) targets"
proof (induction targets)
  case Nil then show ?case by simp
next
  case (Cons t ts)
  obtain url page where t: "t = (url, page)" by (cases t)
  from zepto_result_url [of L page url] obtain r where
    "zepto_scrape_availability L page url = Inr r" "res_url r = url" by blast
  with Cons t show ?case by simp
qed

lemma zepto_run_pincodes_all:
  "map (\<lambda>r. (res_input_pincode r, res_url r))
     (run_pincodes zepto_set_location (zepto_scrape_availability L) jobs s)
   = concat (map job_targets jobs)"
proof (induction jobs arbitrary: s)
  case Nil then show ?case by simp
next
  case (Cons j js)
  obtain pincode lpage targets where j: "j = (pincode, lpage, targets)" by (cases j)
  obtain s' where st: "zepto_set_location lpage pincode s = Inr s'"
    using zepto_set_location_returns [of lpage pincode s] by blast
  show ?case
    unfolding j by (simp add: st probe_targets_zepto Cons.IH)
qed

lemma zepto_main_probes_every_target:
  "map (\<lambda>r. (res_input_pincode r, res_url r)) (zepto_main L (Inr ()) jobs) = concat (map job_targets jobs)"
  by (simp add: zepto_main_def run_scraper_def zepto_run_pincodes_all)

text \<open>A pincode with no URL has its location set and yields no result.\<close>

lemma no_targets_no_results:
  "run_pincodes set_location probe [(pincode, lpage, [])] s = []"
  by (cases "set_location lpage pincode s") simp_all

text \<open>
  C7 (the claim: a failed location makes the orchestrator skip the pincode's URLs). The code
  does not: Zepto's \<open>set_location\<close> handles every exception itself, so the \<open>continue\<close>
  of \<open>main\<close> is never taken and every URL of every pincode is probed
  (\<open>zepto_main_probes_every_target\<close>). Here both location triggers time out, the outer
  handler of \<open>set_location\<close> is reached, and the pincode's URL still yields a result.
\<close>

theorem zepto_main_probes_after_failed_location:
  "fst (zepto_location_steps failed_loc_page initial_session) = Some ''Timeout 5000ms exceeded'' \<and>
   map (\<lambda>r. (res_input_pincode r, res_url r))
     (zepto_main (stub_lib []) (Inr ())
        [(''560001'', failed_loc_page, [(''https://www.zepto.com/pn/milk/pvid/1'', quiet_page ''markup'')])])
   = [(''560001'', ''https://www.zepto.com/pn/milk/pvid/1'')]"
  by code_simp

subsection \<open>The scenario of one Blinkit target\<close>

lemma scenario_prid: "search_from prid_at scenario_url = Some ''123''"
  unfolding scenario_url_def by code_simp

lemma scenario_fill:
  "blinkit_fill L scenario_object r =
     (None, r\<lparr>res_name := JStr ''N/A'', res_price := 100, res_mrp := 120, res_inventory := Some 0,
              res_availability := ''Out of Stock''\<rparr>)"
  by (simp add: blinkit_fill_def scenario_object_def jget_default_def jget_def py_float_def has_key_def
      py_int_def py_or_def truthy_def)

lemma scenario_target:
  assumes "json_scan L BlinkitProductAnchor (normalize_content content) = [Some scenario_object]"
  shows "blinkit_target L scenario_url content = Some scenario_object"
proof -
  have "is_dict scenario_object" and "py_str L (jget scenario_object ''product_id'') = ''123''"
    by (simp_all add: scenario_object_def is_dict_def py_str_def jget_def jget_default_def)
  with assms show ?thesis by (simp add: blinkit_target_def scenario_prid)
qed

text \<open>
  C5: on the URL \<open>https://platform/x/prid/123\<close> (the one target of pincode 560001) and a
  page whose markup yields exactly the object
  \<open>{"product_id":"123","price":100,"mrp":120,"inventory":0}\<close>, read without a raise, the
  probe returns one result, with price 100, MRP 120, availability \<open>Out of Stock\<close> and no
  error. The URL and the object are in Blinkit's format, and the probe is Blinkit's
  \<open>scrape_availability\<close>.
\<close>

theorem blinkit_probe_scenario:
  assumes "pp_goto page = Inr ()" and "pp_wait page = Inr ()" and "pp_content page = Inr content"
    and "json_scan L BlinkitProductAnchor (normalize_content content) = [Some scenario_object]"
    and "pp_body_text page = Inr body"
  shows "\<exists>r. blinkit_scrape_availability L page scenario_url = Inr r \<and>
           res_url r = scenario_url \<and> res_price r = 100 \<and> res_mrp r = 120 \<and>
           res_inventory r = Some 0 \<and> res_availability r = ''Out of Stock'' \<and> res_error r = None"
proof -
  have t: "truthy scenario_object" by (simp add: scenario_object_def truthy_def)
  show ?thesis
    using assms(1,2,3,5) scenario_target [OF assms(4)] t
    by (simp add: blinkit_scrape_availability_def blinkit_probe_steps_def scenario_fill Let_def
        initial_result_def split: sum.split)
qed

text \<open>C5 at a concrete page and library.\<close>

theorem blinkit_probe_scenario_witness:
  "pp_goto (quiet_page scenario_markup) = Inr () \<and> pp_wait (quiet_page scenario_markup) = Inr () \<and>
   pp_content (quiet_page scenario_markup) = Inr scenario_markup \<and>
   json_scan (stub_lib [Some scenario_object]) BlinkitProductAnchor (normalize_content scenario_markup)
     = [Some scenario_object] \<and>
   pp_body_text (quiet_page scenario_markup) = Inr [] \<and>
   map_sum id (\<lambda>r. (res_url r, res_price r, res_mrp r, res_availability r, res_error r))
     (blinkit_scrape_availability (stub_lib [Some scenario_object]) (quiet_page scenario_markup) scenario_url)
   = Inr (scenario_url, 100, 120, ''Out of Stock'', None)"
proof -
  have h: "pp_goto (quiet_page scenario_markup) = Inr ()" "pp_wait (quiet_page scenario_markup) = Inr ()"
    "pp_content (quiet_page scenario_markup) = Inr scenario_markup"
    "json_scan (stub_lib [Some scenario_object]) BlinkitProductAnchor (normalize_content scenario_markup)
       = [Some scenario_object]"
    "pp_body_text (quiet_page scenario_markup) = Inr []"
    by (simp_all add: quiet_page_def stub_lib_def)
  from blinkit_probe_scenario [OF h] obtain r where
    "blinkit_scrape_availability (stub_lib [Some scenario_object]) (quiet_page scenario_markup) scenario_url = Inr r"
    "res_url r = scenario_url" "res_price r = 100" "res_mrp r = 120"
    "res_availability r = ''Out of Stock''" "res_error r = None"
    by blast
  with h show ?thesis by simp
qed

text \<open>
  \<open>main\<close> drives the Zepto adapter, whose anchor (an \<open>id\<close> of 36 hex characters) does
  not occur in this page: given the grouping \<open>{"560001": [".../prid/123"]}\<close> it returns
  one result that still holds the initial values.
\<close>

lemma zepto_on_scenario:
  "map (\<lambda>r. (res_price r, res_mrp r, res_availability r, res_error r))
     (zepto_main (stub_lib []) (Inr ())
        [(''560001'', no_eta_loc_page, [(scenario_url, quiet_page scenario_markup)])])
   = [(0, 0, ''Unknown'', None)]"
  by code_simp

section \<open>Properties of the assortment extractors\<close>

subsection \<open>Dictionaries built by a scan\<close>

lemma set_update_subset: "set (AList.update k v m) \<subseteq> insert (k, v) (set m)"
  by (induction m) auto

lemma in_map_filter: "y \<in> set (List.map_filter f xs) \<longleftrightarrow> (\<exists>x\<in>set xs. f x = Some y)"
  by (induction xs) (auto split: option.splits)





lemma blinkit_step_origin:
  "(k, p) \<in> set (blinkit_dedup_step L d m) \<Longrightarrow>
   (k, p) \<in> set m \<or> (d = Some p \<and> is_dict p \<and> k = blinkit_pid L p)"
  using set_update_subset [of "blinkit_pid L (the d)" "the d" m]
  by (auto simp: blinkit_dedup_step_def blinkit_pid_def Let_def split: option.splits if_splits)

lemma blinkit_fold_origin:
  "(k, p) \<in> set (foldl (\<lambda>m d. blinkit_dedup_step L d m) m ds) \<Longrightarrow>
   (k, p) \<in> set m \<or> (Some p \<in> set ds \<and> is_dict p \<and> k = blinkit_pid L p)"
proof (induction ds arbitrary: m)
  case Nil then show ?case by simp
next
  case (Cons d ds)
  from Cons.IH [of "blinkit_dedup_step L d m"] Cons.prems
  have "(k, p) \<in> set (blinkit_dedup_step L d m) \<or> (Some p \<in> set ds \<and> is_dict p \<and> k = blinkit_pid L p)"
    by simp
  with blinkit_step_origin [of k p L d m] show ?case by auto
qed

lemma blinkit_dedup_origin:
  "(k, p) \<in> set (blinkit_dedup L ds) \<Longrightarrow> Some p \<in> set ds \<and> is_dict p \<and> k = blinkit_pid L p"
  using blinkit_fold_origin [of k p L "[]" ds] by (simp add: blinkit_dedup_def)




lemma zepto_step_origin:
  "(k, p) \<in> set (zepto_dedup_step d m) \<Longrightarrow>
   (k, p) \<in> set m \<or> (d = Some p \<and> zepto_is_candidate p \<and> (\<exists>n. jget p ''name'' = JStr n \<and> k = py_strip n))"
proof (cases d)
  case None
  assume "(k, p) \<in> set (zepto_dedup_step d m)"
  with None show ?thesis by (simp add: zepto_dedup_step_def)
next
  case (Some q)
  assume a: "(k, p) \<in> set (zepto_dedup_step d m)"
  show ?thesis
  proof (cases "zepto_is_candidate q \<and> (\<exists>n. jget q ''name'' = JStr n)")
    case False
    with a Some have "(k, p) \<in> set m"
      by (auto simp: zepto_dedup_step_def split: json.splits)
    then show ?thesis by simp
  next
    case True
    then obtain n where n: "jget q ''name'' = JStr n" and c: "zepto_is_candidate q" by blast
    from a Some n c have "(k, p) \<in> set m \<or> (k, p) \<in> set (AList.update (py_strip n) q m)"
      by (auto simp: zepto_dedup_step_def Let_def split: option.splits if_splits)
    with set_update_subset [of "py_strip n" q m] Some n c show ?thesis by auto
  qed
qed

lemma zepto_fold_origin:
  "(k, p) \<in> set (foldl (\<lambda>m d. zepto_dedup_step d m) m ds) \<Longrightarrow>
   (k, p) \<in> set m \<or> (Some p \<in> set ds \<and> zepto_is_candidate p \<and> (\<exists>n. jget p ''name'' = JStr n \<and> k = py_strip n))"
proof (induction ds arbitrary: m)
  case Nil then show ?case by simp
next
  case (Cons d ds)
  from Cons.IH [of "zepto_dedup_step d m"] Cons.prems
  have "(k, p) \<in> set (zepto_dedup_step d m) \<or>
        (Some p \<in> set ds \<and> zepto_is_candidate p \<and> (\<exists>n. jget p ''name'' = JStr n \<and> k = py_strip n))"
    by simp
  with zepto_step_origin [of k p d m] show ?case by auto
qed

lemma zepto_dedup_origin:
  "(k, p) \<in> set (zepto_dedup ds) \<Longrightarrow>
   Some p \<in> set ds \<and> zepto_is_candidate p \<and> (\<exists>n. jget p ''name'' = JStr n \<and> k = py_strip n)"
  using zepto_fold_origin [of k p "[]" ds] by (simp add: zepto_dedup_def)










subsection \<open>Emitted items\<close>

lemma blinkit_item_fields:
  assumes "blinkit_item L ctx pid p = Some y"
  shows "item_base_product_id y = JStr pid \<and>
         item_availability y = (if blinkit_unavailable p then ''Out of Stock'' else ''In Stock'')"
proof (cases "py_float L (jget_default p ''mrp'' (JInt 0))")
  case (Inl e)
  with assms show ?thesis by (simp add: blinkit_item_def)
next
  case m: (Inr listed)
  show ?thesis
  proof (cases "py_float L (jget_default p ''price'' (JInt 0))")
    case (Inl e)
    with assms m show ?thesis by (simp add: blinkit_item_def)
  next
    case s: (Inr selling)
    show ?thesis
    proof (cases "py_or (jget p ''product_name'') (py_or (jget p ''display_name'') (JStr ''Unknown''))")
      case (JStr name)
      with assms m s show ?thesis by (auto simp add: blinkit_item_def)
    qed (use assms m s in \<open>simp_all add: blinkit_item_def\<close>)
  qed
qed


lemma zepto_item_fields:
  assumes "zepto_item L ctx name p = Some y"
  shows "item_name y = name \<and> item_base_product_id y = jget p ''id'' \<and>
         item_availability y = (if truthy (jget p ''isSoldOut'') then ''Out of Stock'' else ''In Stock'') \<and>
         (\<exists>selling. py_float L (jget_default p ''sellingPrice'' (JInt 0)) = Inr selling \<and>
                     item_price y = selling / 100)"
proof (cases "produce_filtered (ctx_category ctx) name")
  case True
  with assms show ?thesis by (simp add: zepto_item_def)
next
  case f: False
  show ?thesis
  proof (cases "py_float L (jget_default p ''sellingPrice'' (JInt 0))")
    case (Inl e)
    with assms f show ?thesis by (simp add: zepto_item_def)
  next
    case s: (Inr selling)
    show ?thesis
    proof (cases "py_float L (jget_default p ''mrp'' (JInt 0))")
      case (Inl e)
      with assms f s show ?thesis by (simp add: zepto_item_def)
    next
      case m: (Inr listed)
      show ?thesis
      proof (cases "zepto_image_url p")
        case (Inl e)
        with assms f s m show ?thesis by (simp add: zepto_item_def)
      next
        case (Inr img)
        with assms f s m show ?thesis by (auto simp add: zepto_item_def)
      qed
    qed
  qed
qed












subsection \<open>Availability of an emitted item\<close>

text \<open>
  C3, amended: every item a scan emits comes from a record the scan decoded, and its
  availability follows that record's stock signal. On Blinkit the signal is an inventory
  equal to 0 or an \<open>unavailable_quantity\<close> equal to 1: with either the item is
  \<open>Out of Stock\<close>, with neither \<open>In Stock\<close>. On Zepto the signal is the
  \<open>isSoldOut\<close> flag alone: truthy gives \<open>Out of Stock\<close>, anything else \<open>In Stock\<close>,
  whatever the inventory.
\<close>

theorem availability_from_stock_signal:
  "(blinkit_scrape_assortment L page url pincode s = Inr items \<longrightarrow>
      (\<forall>y\<in>set items. \<exists>content p.
          lp_content page = Inr content \<and> Some p \<in> set (json_scan L BlinkitListAnchor content) \<and>
          item_base_product_id y = JStr (blinkit_pid L p) \<and>
          item_availability y =
            (if eq_int (jget p ''unavailable_quantity'') 1 \<or> eq_int (jget p ''inventory'') 0
             then ''Out of Stock'' else ''In Stock''))) \<and>
   (zepto_scrape_assortment L page url pincode s = Inr items' \<longrightarrow>
      (\<forall>y\<in>set items'. \<exists>content p n.
          lp_content page = Inr content \<and>
          Some p \<in> set (json_scan L ZeptoIdAnchor (normalize_content content)) \<and>
          jget p ''name'' = JStr n \<and> item_name y = py_strip n \<and>
          item_availability y = (if truthy (jget p ''isSoldOut'') then ''Out of Stock'' else ''In Stock'')))"
proof (intro conjI impI ballI)
  fix y
  assume r: "blinkit_scrape_assortment L page url pincode s = Inr items" and y: "y \<in> set items"
  from r y obtain ctx content where
    c: "lp_content page = Inr content" and
    i: "items = blinkit_items L ctx (blinkit_products_map L content)"
    by (auto simp: blinkit_scrape_assortment_def failed_scan_def split: option.splits sum.splits)
  from y i obtain k p where
    kp: "(k, p) \<in> set (blinkit_dedup L (json_scan L BlinkitListAnchor content))"
    and it: "blinkit_item L ctx k p = Some y"
    by (auto simp: blinkit_items_def blinkit_products_map_def in_map_filter)
  from blinkit_dedup_origin [OF kp] blinkit_item_fields [OF it] c
  show "\<exists>content p.
          lp_content page = Inr content \<and> Some p \<in> set (json_scan L BlinkitListAnchor content) \<and>
          item_base_product_id y = JStr (blinkit_pid L p) \<and>
          item_availability y =
            (if eq_int (jget p ''unavailable_quantity'') 1 \<or> eq_int (jget p ''inventory'') 0
             then ''Out of Stock'' else ''In Stock'')"
    by (auto simp: blinkit_unavailable_def)
next
  fix y
  assume r: "zepto_scrape_assortment L page url pincode s = Inr items'" and y: "y \<in> set items'"
  from r y obtain ctx content where
    c: "lp_content page = Inr content" and
    i: "items' = zepto_items L ctx (zepto_products_map L content)"
    by (auto simp: zepto_scrape_assortment_def split: if_splits sum.splits)
  from y i obtain k p where
    kp: "(k, p) \<in> set (zepto_dedup (json_scan L ZeptoIdAnchor (normalize_content content)))"
    and it: "zepto_item L ctx k p = Some y"
    by (auto simp: zepto_items_def zepto_products_map_def in_map_filter)
  from zepto_dedup_origin [OF kp] obtain n where
    "Some p \<in> set (json_scan L ZeptoIdAnchor (normalize_content content))"
    "jget p ''name'' = JStr n" "k = py_strip n" by blast
  with zepto_item_fields [OF it] c
  show "\<exists>content p n.
          lp_content page = Inr content \<and>
          Some p \<in> set (json_scan L ZeptoIdAnchor (normalize_content content)) \<and>
          jget p ''name'' = JStr n \<and> item_name y = py_strip n \<and>
          item_availability y = (if truthy (jget p ''isSoldOut'') then ''Out of Stock'' else ''In Stock'')"
    by blast
qed

lemma blinkit_signal_scan:
  "map_sum id (map item_availability)
     (blinkit_scrape_assortment (stub_lib stock_signal_records) (quiet_listing blinkit_listing_url)
        blinkit_listing_url ''560001'' initial_session)
   = Inr [''Out of Stock'', ''Out of Stock'', ''In Stock'']"
  by code_simp

lemma zepto_signal_scan:
  "map_sum id (map item_availability)
     (zepto_scrape_assortment (stub_lib sold_out_records) (quiet_listing zepto_listing_url)
        zepto_listing_url ''560001'' initial_session)
   = Inr [''Out of Stock'', ''In Stock'']"
  by code_simp

text \<open>The amended C3 at a Blinkit scan and a Zepto scan.\<close>

theorem availability_from_stock_signal_witness:
  "(\<exists>items. blinkit_scrape_assortment (stub_lib stock_signal_records) (quiet_listing blinkit_listing_url)
        blinkit_listing_url ''560001'' initial_session = Inr items \<and>
      map item_availability items = [''Out of Stock'', ''Out of Stock'', ''In Stock''] \<and>
      list_all (\<lambda>y. \<exists>p. Some p \<in> set stock_signal_records \<and>
          item_base_product_id y = JStr (blinkit_pid (stub_lib stock_signal_records) p) \<and>
          item_availability y =
            (if eq_int (jget p ''unavailable_quantity'') 1 \<or> eq_int (jget p ''inventory'') 0
             then ''Out of Stock'' else ''In Stock'')) items) \<and>
   (\<exists>items. zepto_scrape_assortment (stub_lib sold_out_records) (quiet_listing zepto_listing_url)
        zepto_listing_url ''560001'' initial_session = Inr items \<and>
      map item_availability items = [''Out of Stock'', ''In Stock''] \<and>
      list_all (\<lambda>y. \<exists>p n. Some p \<in> set sold_out_records \<and> jget p ''name'' = JStr n \<and>
          item_name y = py_strip n \<and>
          item_availability y = (if truthy (jget p ''isSoldOut'') then ''Out of Stock'' else ''In Stock'')) items)"
proof -
  obtain bi where bi: "blinkit_scrape_assortment (stub_lib stock_signal_records)
      (quiet_listing blinkit_listing_url) blinkit_listing_url ''560001'' initial_session = Inr bi"
      "map item_availability bi = [''Out of Stock'', ''Out of Stock'', ''In Stock'']"
    using blinkit_signal_scan
    by (cases "blinkit_scrape_assortment (stub_lib stock_signal_records)
      (quiet_listing blinkit_listing_url) blinkit_listing_url ''560001'' initial_session") auto
  obtain zi where zi: "zepto_scrape_assortment (stub_lib sold_out_records) (quiet_listing zepto_listing_url)
        zepto_listing_url ''560001'' initial_session = Inr zi"
      "map item_availability zi = [''Out of Stock'', ''In Stock'']"
    using zepto_signal_scan
    by (cases "zepto_scrape_assortment (stub_lib sold_out_records) (quiet_listing zepto_listing_url)
        zepto_listing_url ''560001'' initial_session") auto
  have sb: "json_scan (stub_lib stock_signal_records) a t = stock_signal_records" for a t
    by (simp add: stub_lib_def)
  have sz: "json_scan (stub_lib sold_out_records) a t = sold_out_records" for a t
    by (simp add: stub_lib_def)
  note T1 = availability_from_stock_signal [where L = "stub_lib stock_signal_records"
      and page = "quiet_listing blinkit_listing_url" and url = blinkit_listing_url
      and pincode = "''560001''" and s = initial_session and items = bi, THEN conjunct1, rule_format, OF bi(1)]
  have b: "list_all (\<lambda>y. \<exists>p. Some p \<in> set stock_signal_records \<and>
          item_base_product_id y = JStr (blinkit_pid (stub_lib stock_signal_records) p) \<and>
          item_availability y =
            (if eq_int (jget p ''unavailable_quantity'') 1 \<or> eq_int (jget p ''inventory'') 0
             then ''Out of Stock'' else ''In Stock'')) bi"
    unfolding list_all_iff
  proof
    fix y assume "y \<in> set bi"
    from T1 [OF this] obtain content p where
      "Some p \<in> set (json_scan (stub_lib stock_signal_records) BlinkitListAnchor content)"
      "item_base_product_id y = JStr (blinkit_pid (stub_lib stock_signal_records) p)"
      "item_availability y =
            (if eq_int (jget p ''unavailable_quantity'') 1 \<or> eq_int (jget p ''inventory'') 0
             then ''Out of Stock'' else ''In Stock'')"
      by blast
    then show "\<exists>p. Some p \<in> set stock_signal_records \<and>
          item_base_product_id y = JStr (blinkit_pid (stub_lib stock_signal_records) p) \<and>
          item_availability y =
            (if eq_int (jget p ''unavailable_quantity'') 1 \<or> eq_int (jget p ''inventory'') 0
             then ''Out of Stock'' else ''In Stock'')"
      unfolding sb by (intro exI [of _ p] conjI)
  qed
  note T2 = availability_from_stock_signal [where L = "stub_lib sold_out_records"
      and page = "quiet_listing zepto_listing_url" and url = zepto_listing_url
      and pincode = "''560001''" and s = initial_session and items' = zi, THEN conjunct2, rule_format, OF zi(1)]
  have z: "list_all (\<lambda>y. \<exists>p n. Some p \<in> set sold_out_records \<and> jget p ''name'' = JStr n \<and>
          item_name y = py_strip n \<and>
          item_availability y = (if truthy (jget p ''isSoldOut'') then ''Out of Stock'' else ''In Stock'')) zi"
    unfolding list_all_iff
  proof
    fix y assume "y \<in> set zi"
    from T2 [OF this] obtain content p n where
      "Some p \<in> set (json_scan (stub_lib sold_out_records) ZeptoIdAnchor (normalize_content content))"
      "jget p ''name'' = JStr n" "item_name y = py_strip n"
      "item_availability y = (if truthy (jget p ''isSoldOut'') then ''Out of Stock'' else ''In Stock'')"
      by blast
    then show "\<exists>p n. Some p \<in> set sold_out_records \<and> jget p ''name'' = JStr n \<and>
          item_name y = py_strip n \<and>
          item_availability y = (if truthy (jget p ''isSoldOut'') then ''Out of Stock'' else ''In Stock'')"
      unfolding sz by (intro exI [of _ p] exI [of _ n] conjI)
  qed
  show ?thesis
  proof (intro conjI)
    from bi b show "\<exists>items. blinkit_scrape_assortment (stub_lib stock_signal_records) (quiet_listing blinkit_listing_url)
        blinkit_listing_url ''560001'' initial_session = Inr items \<and>
      map item_availability items = [''Out of Stock'', ''Out of Stock'', ''In Stock''] \<and>
      list_all (\<lambda>y. \<exists>p. Some p \<in> set stock_signal_records \<and>
          item_base_product_id y = JStr (blinkit_pid (stub_lib stock_signal_records) p) \<and>
          item_availability y =
            (if eq_int (jget p ''unavailable_quantity'') 1 \<or> eq_int (jget p ''inventory'') 0
             then ''Out of Stock'' else ''In Stock'')) items"
      by (intro exI [of _ bi] conjI)
    from zi z show "\<exists>items. zepto_scrape_assortment (stub_lib sold_out_records) (quiet_listing zepto_listing_url)
        zepto_listing_url ''560001'' initial_session = Inr items \<and>
      map item_availability items = [''Out of Stock'', ''In Stock''] \<and>
      list_all (\<lambda>y. \<exists>p n. Some p \<in> set sold_out_records \<and> jget p ''name'' = JStr n \<and>
          item_name y = py_strip n \<and>
          item_availability y = (if truthy (jget p ''isSoldOut'') then ''Out of Stock'' else ''In Stock'')) items"
      by (intro exI [of _ zi] conjI)
  qed
qed

text \<open>
  C3 as stated fails on Zepto: a record with an inventory of 0 and no sold-out flag is
  emitted as \<open>In Stock\<close>.
\<close>

theorem zepto_in_stock_at_zero_inventory:
  "eq_int (jget zero_inventory_record ''inventory'') 0 \<and>
   map_sum id (map item_availability)
     (zepto_scrape_assortment (stub_lib [Some zero_inventory_record]) (quiet_listing zepto_listing_url)
        zepto_listing_url ''560001'' initial_session)
   = Inr [''In Stock'']"
  by code_simp

subsection \<open>Which of two colliding candidates is kept\<close>

lemma zepto_dedup_two:
  assumes a: "zepto_is_candidate a" "jget a ''name'' = JStr na"
    and b: "zepto_is_candidate b" "jget b ''name'' = JStr nb"
    and n: "py_strip na = py_strip nb"
  shows "zepto_dedup [Some a, Some b] =
           [(py_strip na, if truthy (jget b ''mrp'') \<and> \<not> truthy (jget a ''mrp'') then b else a)]"
  using assms by (simp add: zepto_dedup_def zepto_dedup_step_def Let_def)

lemma blinkit_dedup_two:
  assumes "is_dict a" and "is_dict b" and "blinkit_pid L a = blinkit_pid L b" and "blinkit_pid L a \<noteq> []"
  shows "blinkit_dedup L [Some a, Some b] = [(blinkit_pid L a, a)]"
  using assms by (simp add: blinkit_dedup_def blinkit_dedup_step_def blinkit_pid_def Let_def)

text \<open>
  C4, amended. Zepto: of two candidates with the same stripped name, one with a populated
  MRP and one without, the extractor keeps the one with the MRP, in either encounter
  order. Blinkit: of two candidates with the same identifier, the extractor keeps the one
  it meets first.
\<close>

theorem dedup_keeps_mrp_or_first:
  "(zepto_is_candidate a \<and> jget a ''name'' = JStr na \<and> zepto_is_candidate b \<and> jget b ''name'' = JStr nb \<and>
    py_strip na = py_strip nb \<and> truthy (jget a ''mrp'') \<and> \<not> truthy (jget b ''mrp'')
    \<longrightarrow> zepto_dedup [Some a, Some b] = [(py_strip na, a)] \<and>
        zepto_dedup [Some b, Some a] = [(py_strip na, a)]) \<and>
   (is_dict c \<and> is_dict d \<and> blinkit_pid L c = blinkit_pid L d \<and> blinkit_pid L c \<noteq> []
    \<longrightarrow> blinkit_dedup L [Some c, Some d] = [(blinkit_pid L c, c)])"
proof (intro conjI impI)
  assume h: "zepto_is_candidate a \<and> jget a ''name'' = JStr na \<and> zepto_is_candidate b \<and> jget b ''name'' = JStr nb \<and>
    py_strip na = py_strip nb \<and> truthy (jget a ''mrp'') \<and> \<not> truthy (jget b ''mrp'')"
  then have f: "zepto_is_candidate a" "jget a ''name'' = JStr na" "zepto_is_candidate b"
    "jget b ''name'' = JStr nb" "py_strip na = py_strip nb" "truthy (jget a ''mrp'')"
    "\<not> truthy (jget b ''mrp'')"
    by blast+
  from zepto_dedup_two [OF f(1,2,3,4,5)] f(6,7)
  show "zepto_dedup [Some a, Some b] = [(py_strip na, a)]" by simp
  from zepto_dedup_two [OF f(3,4,1,2) f(5) [symmetric]] f(5,6,7)
  show "zepto_dedup [Some b, Some a] = [(py_strip na, a)]" by simp
next
  assume "is_dict c \<and> is_dict d \<and> blinkit_pid L c = blinkit_pid L d \<and> blinkit_pid L c \<noteq> []"
  then have "is_dict c" "is_dict d" "blinkit_pid L c = blinkit_pid L d" "blinkit_pid L c \<noteq> []"
    by blast+
  then show "blinkit_dedup L [Some c, Some d] = [(blinkit_pid L c, c)]"
    by (rule blinkit_dedup_two)
qed

text \<open>The amended C4 at two Zepto records named "Milk" and two Blinkit records with id 1.\<close>

theorem dedup_keeps_mrp_or_first_witness:
  "zepto_is_candidate zepto_with_mrp \<and> jget zepto_with_mrp ''name'' = JStr ''Milk'' \<and>
   zepto_is_candidate zepto_without_mrp \<and> jget zepto_without_mrp ''name'' = JStr ''Milk '' \<and>
   py_strip ''Milk'' = py_strip ''Milk '' \<and>
   truthy (jget zepto_with_mrp ''mrp'') \<and> \<not> truthy (jget zepto_without_mrp ''mrp'') \<and>
   zepto_dedup [Some zepto_with_mrp, Some zepto_without_mrp] = [(''Milk'', zepto_with_mrp)] \<and>
   zepto_dedup [Some zepto_without_mrp, Some zepto_with_mrp] = [(''Milk'', zepto_with_mrp)] \<and>
   is_dict bare_record \<and> is_dict full_record \<and>
   blinkit_pid (stub_lib []) bare_record = blinkit_pid (stub_lib []) full_record \<and>
   blinkit_pid (stub_lib []) bare_record = ''1'' \<and>
   blinkit_dedup (stub_lib []) [Some bare_record, Some full_record] = [(''1'', bare_record)]"
proof -
  have h1: "zepto_is_candidate zepto_with_mrp \<and> jget zepto_with_mrp ''name'' = JStr ''Milk'' \<and>
   zepto_is_candidate zepto_without_mrp \<and> jget zepto_without_mrp ''name'' = JStr ''Milk '' \<and>
   py_strip ''Milk'' = py_strip ''Milk '' \<and>
   truthy (jget zepto_with_mrp ''mrp'') \<and> \<not> truthy (jget zepto_without_mrp ''mrp'')"
    by code_simp
  have s: "py_strip ''Milk'' = ''Milk''" by code_simp
  have h2: "is_dict bare_record \<and> is_dict full_record \<and>
   blinkit_pid (stub_lib []) bare_record = blinkit_pid (stub_lib []) full_record \<and>
   blinkit_pid (stub_lib []) bare_record \<noteq> []"
    by code_simp
  have p: "blinkit_pid (stub_lib []) bare_record = ''1''" by code_simp
  note T = dedup_keeps_mrp_or_first [where a = zepto_with_mrp and na = "''Milk''"
      and b = zepto_without_mrp and nb = "''Milk ''" and c = bare_record and d = full_record
      and L = "stub_lib []"]
  from T [THEN conjunct1, rule_format, OF h1] T [THEN conjunct2, rule_format, OF h2] h1 h2 s p
  show ?thesis by simp
qed

text \<open>
  C4 as stated fails on Blinkit: of a bare record and one with price, MRP and brand under
  the same id, the scan keeps whichever comes first.
\<close>

theorem blinkit_keeps_first_encountered:
  "blinkit_dedup (stub_lib []) [Some bare_record, Some full_record] = [(''1'', bare_record)] \<and>
   blinkit_dedup (stub_lib []) [Some full_record, Some bare_record] = [(''1'', full_record)]"
  by code_simp

text \<open>
  In a Zepto pass of any length, a name under which some candidate has a populated MRP
  ends up with a record that has one.
\<close>

lemma zepto_step_keeps_mrp:
  assumes "map_of m n = Some q" and "truthy (jget q ''mrp'')"
  shows "map_of (zepto_dedup_step d m) n = Some q"
proof (cases d)
  case None
  with assms show ?thesis by (simp add: zepto_dedup_step_def)
next
  case (Some p)
  show ?thesis
  proof (cases "zepto_is_candidate p")
    case False
    with Some assms show ?thesis by (simp add: zepto_dedup_step_def)
  next
    case c: True
    show ?thesis
    proof (cases "jget p ''name''")
      case (JStr nm)
      show ?thesis
      proof (cases "py_strip nm = n")
        case True
        with Some c JStr assms show ?thesis by (simp add: zepto_dedup_step_def Let_def)
      next
        case False
        with Some c JStr assms show ?thesis
          by (simp add: zepto_dedup_step_def Let_def AList.update_conv' split: option.split)
      qed
    qed (use Some c assms in \<open>simp_all add: zepto_dedup_step_def\<close>)
  qed
qed

lemma zepto_step_takes_mrp:
  assumes "zepto_is_candidate p" and "jget p ''name'' = JStr nm" and "truthy (jget p ''mrp'')"
  shows "\<exists>q. map_of (zepto_dedup_step (Some p) m) (py_strip nm) = Some q \<and> truthy (jget q ''mrp'')"
proof (cases "map_of m (py_strip nm)")
  case None
  with assms show ?thesis by (simp add: zepto_dedup_step_def Let_def AList.update_conv')
next
  case (Some existing)
  with assms show ?thesis
    by (cases "truthy (jget existing ''mrp'')") (simp_all add: zepto_dedup_step_def Let_def AList.update_conv')
qed

lemma zepto_fold_mrp:
  assumes "(\<exists>q. map_of m n = Some q \<and> truthy (jget q ''mrp'')) \<or>
           (\<exists>p nm. Some p \<in> set ds \<and> zepto_is_candidate p \<and> jget p ''name'' = JStr nm \<and>
                    py_strip nm = n \<and> truthy (jget p ''mrp''))"
  shows "\<exists>q. map_of (foldl (\<lambda>m d. zepto_dedup_step d m) m ds) n = Some q \<and> truthy (jget q ''mrp'')"
  using assms
proof (induction ds arbitrary: m)
  case Nil
  then show ?case by simp
next
  case (Cons d ds)
  have "(\<exists>q. map_of (zepto_dedup_step d m) n = Some q \<and> truthy (jget q ''mrp'')) \<or>
        (\<exists>p nm. Some p \<in> set ds \<and> zepto_is_candidate p \<and> jget p ''name'' = JStr nm \<and>
                 py_strip nm = n \<and> truthy (jget p ''mrp''))"
  proof (cases "\<exists>q. map_of m n = Some q \<and> truthy (jget q ''mrp'')")
    case True
    then show ?thesis using zepto_step_keeps_mrp by blast
  next
    case False
    with Cons.prems obtain p nm where p: "Some p \<in> set (d # ds)" "zepto_is_candidate p"
      "jget p ''name'' = JStr nm" "py_strip nm = n" "truthy (jget p ''mrp'')" by blast
    show ?thesis
    proof (cases "d = Some p")
      case True
      with zepto_step_takes_mrp [OF p(2,3,5), of m] p(4) show ?thesis by blast
    next
      case False
      with p show ?thesis by auto
    qed
  qed
  from Cons.IH [OF this] show ?case by simp
qed

lemma zepto_dedup_prefers_mrp:
  assumes "Some p \<in> set ds" and "zepto_is_candidate p" and "jget p ''name'' = JStr nm"
    and "truthy (jget p ''mrp'')"
  shows "\<exists>q. map_of (zepto_dedup ds) (py_strip nm) = Some q \<and> truthy (jget q ''mrp'')"
  unfolding zepto_dedup_def using assms by (intro zepto_fold_mrp) blast

section \<open>Currency normalisation on Zepto\<close>

lemma scaled_amount_int: "scaled_amount L (JInt n) = Inr (if n = 0 then None else Some (of_int n / 100))"
  by (simp add: scaled_amount_def truthy_def py_float_def)

lemma zepto_fill_price:
  assumes "jget j ''sellingPrice'' = JInt n"
  shows "res_price (snd (zepto_fill L j r)) = (if n = 0 then res_price r else of_int n / 100)"
proof (cases "scaled_amount L (jget j ''mrp'')")
  case (Inl e)
  with assms show ?thesis by (simp add: zepto_fill_def scaled_amount_int Let_def)
next
  case (Inr mp)
  with assms show ?thesis
    by (simp add: zepto_fill_def scaled_amount_int Let_def split: sum.split option.split)
qed

lemma zepto_dom_block_price: "res_price (snd (zepto_dom_block L page r)) = res_price r"
  by (simp add: zepto_dom_block_def Let_def split: sum.split option.split)

lemma largest_first_in: "largest_first k c cs \<in> set (c # cs)"
  by (induction cs arbitrary: c) (auto split: if_splits)

lemma zepto_pick_in:
  assumes "zepto_pick L url cs = Some j"
  shows "j \<in> set cs"
proof -
  define by_id where "by_id =
    (case search_from pvid_at url of
       None \<Rightarrow> None
     | Some target_id \<Rightarrow> List.find (\<lambda>c. eq_str (jget c ''id'') target_id) cs)"
  have b: "x \<in> set cs" if "by_id = Some x" for x
    using that unfolding by_id_def by (auto split: option.splits simp: find_Some_iff)
  have p: "zepto_pick L url cs =
      (if (case by_id of None \<Rightarrow> True | Some j \<Rightarrow> \<not> truthy j)
       then (case cs of [] \<Rightarrow> by_id | c # cs' \<Rightarrow> Some (largest_first (\<lambda>x. length (py_str L x)) c cs'))
       else by_id)"
    unfolding zepto_pick_def by_id_def Let_def ..
  show ?thesis
  proof (cases "case by_id of None \<Rightarrow> True | Some j \<Rightarrow> \<not> truthy j")
    case False
    with assms p have "by_id = Some j" by simp
    then show ?thesis by (rule b)
  next
    case True
    show ?thesis
    proof (cases cs)
      case Nil
      with assms p True have "by_id = Some j" by simp
      then show ?thesis by (rule b)
    next
      case (Cons c cs')
      with assms p True have "j = largest_first (\<lambda>x. length (py_str L x)) c cs'" by simp
      with largest_first_in [of "\<lambda>x. length (py_str L x)" c cs'] Cons show ?thesis by simp
    qed
  qed
qed

lemma candidate_truthy: "zepto_is_candidate j \<Longrightarrow> truthy j"
  by (cases j) (auto simp: zepto_is_candidate_def is_dict_def truthy_def jget_def jget_default_def)

lemma zepto_picked_truthy: "zepto_pick L url (zepto_candidates L content) = Some j \<Longrightarrow> truthy j"
  by (drule zepto_pick_in) (auto simp: zepto_candidates_def candidate_truthy)

text \<open>
  C6: Zepto's prices are in hundredths. A record whose raw \<open>sellingPrice\<close> is the integer
  \<open>n\<close> gives the price \<open>n / 100\<close>, exactly, in the item the assortment scan emits and
  in the result of the probe that picked the record (19900 gives 199).
\<close>

theorem minor_units_divided_by_100:
  "(zepto_item L ctx name p = Some y \<and> jget p ''sellingPrice'' = JInt n
      \<longrightarrow> item_price y = of_int n / 100) \<and>
   (first_failure [pp_goto page, pp_wait page] = None \<and> pp_content page = Inr content \<and>
    \<not> py_in not_found_marker content \<and>
    zepto_pick L url (zepto_candidates L content) = Some j \<and> jget j ''sellingPrice'' = JInt n
      \<longrightarrow> (\<exists>r. zepto_scrape_availability L page url = Inr r \<and> res_price r = of_int n / 100))"
proof (intro conjI impI)
  assume h: "zepto_item L ctx name p = Some y \<and> jget p ''sellingPrice'' = JInt n"
  from h have y: "zepto_item L ctx name p = Some y" and sp: "jget p ''sellingPrice'' = JInt n" by blast+
  from zepto_item_fields [OF y] obtain selling where
    s: "py_float L (jget_default p ''sellingPrice'' (JInt 0)) = Inr selling" "item_price y = selling / 100"
    by blast
  from sp have "jget_default p ''sellingPrice'' (JInt 0) = JInt n"
    by (auto simp: jget_def jget_default_def split: json.splits option.splits)
  with s show "item_price y = of_int n / 100" by (simp add: py_float_def)
next
  assume h: "first_failure [pp_goto page, pp_wait page] = None \<and> pp_content page = Inr content \<and>
    \<not> py_in not_found_marker content \<and>
    zepto_pick L url (zepto_candidates L content) = Some j \<and> jget j ''sellingPrice'' = JInt n"
  let ?r0 = "initial_result ''zepto'' url (pp_now page) (Some 1)"
  from h have pick: "zepto_pick L url (zepto_candidates L content) = Some j"
    and sp: "jget j ''sellingPrice'' = JInt n" by blast+
  have "zepto_json_block L url content ?r0 = zepto_fill L j ?r0"
    using pick zepto_picked_truthy [OF pick] by (simp add: zepto_json_block_def)
  then have "res_price (snd (zepto_json_block L url content ?r0)) = of_int n / 100"
    using zepto_fill_price [OF sp, of L ?r0] by (simp add: initial_result_def)
  with h have "res_price (snd (zepto_probe_steps L page url ?r0)) = of_int n / 100"
    by (simp add: zepto_probe_steps_def zepto_dom_block_price)
  then show "\<exists>r. zepto_scrape_availability L page url = Inr r \<and> res_price r = of_int n / 100"
    by (simp add: zepto_result Let_def split: option.split)
qed

text \<open>C6 at a record whose selling price is 19900: the emitted price is 199.\<close>

theorem minor_units_divided_by_100_witness:
  "jget priced_record ''sellingPrice'' = JInt 19900 \<and>
   map_option item_price (zepto_item (stub_lib []) priced_context ''Ghee'' priced_record) = Some 199 \<and>
   first_failure [pp_goto (quiet_page ''markup''), pp_wait (quiet_page ''markup'')] = None \<and>
   pp_content (quiet_page ''markup'') = Inr ''markup'' \<and> \<not> py_in not_found_marker ''markup'' \<and>
   zepto_pick (stub_lib [Some priced_record]) priced_url
     (zepto_candidates (stub_lib [Some priced_record]) ''markup'') = Some priced_record \<and>
   (\<exists>r. zepto_scrape_availability (stub_lib [Some priced_record]) (quiet_page ''markup'') priced_url = Inr r \<and>
        res_price r = 199)"
proof -
  have sp: "jget priced_record ''sellingPrice'' = JInt 19900" by code_simp
  have emitted: "zepto_item (stub_lib []) priced_context ''Ghee'' priced_record \<noteq> None" by code_simp
  then obtain y where y: "zepto_item (stub_lib []) priced_context ''Ghee'' priced_record = Some y" by blast
  have page: "first_failure [pp_goto (quiet_page ''markup''), pp_wait (quiet_page ''markup'')] = None \<and>
      pp_content (quiet_page ''markup'') = Inr ''markup'' \<and> \<not> py_in not_found_marker ''markup'' \<and>
      zepto_pick (stub_lib [Some priced_record]) priced_url
        (zepto_candidates (stub_lib [Some priced_record]) ''markup'') = Some priced_record \<and>
      jget priced_record ''sellingPrice'' = JInt 19900"
    by code_simp
  note T = minor_units_divided_by_100 [where n = 19900 and p = priced_record and j = priced_record
      and name = "''Ghee''" and y = y and content = "''markup''" and page = "quiet_page ''markup''"
      and url = priced_url]
  from T [where L = "stub_lib []" and ctx = priced_context, THEN conjunct1] y sp
  have "item_price y = 199" by simp
  with y have a: "map_option item_price (zepto_item (stub_lib []) priced_context ''Ghee'' priced_record) = Some 199"
    by simp
  from T [where L = "stub_lib [Some priced_record]", THEN conjunct2, rule_format, OF page]
  have b: "\<exists>r. zepto_scrape_availability (stub_lib [Some priced_record]) (quiet_page ''markup'') priced_url = Inr r \<and>
        res_price r = 199" by simp
  from sp a page b show ?thesis by blast
qed

end
